theory Spec2Isabelle
  imports Main "HOL-Library.Multiset" "HOL-Library.Sublist"
begin

section \<open>The sync reporter of vet: a shallow embedding\<close>

text \<open>
  The Go package \<^verbatim>\<open>reporter\<close> (its sync reporter) forwards one insight per scanned
  package to a remote tool service. This theory embeds its session pool, its
  translation of a package into a publish request, its shutdown and its worker loop,
  and proves properties of them.

  Conventions of the embedding.
  \<^item> A Go struct is a record, a Go enumeration a datatype, a Go pointer that may be
    nil an \<open>option\<close>, a Go map a partial function.
  \<^item> A Go \<^verbatim>\<open>error\<close> is a value of the datatype \<open>error\<close>; a function returning
    \<^verbatim>\<open>(T, error)\<close> returns \<open>error + T\<close>, a function returning \<^verbatim>\<open>error\<close>
    returns \<open>error option\<close> (\<open>None\<close> is \<^verbatim>\<open>nil\<close>).
  \<^item> A panic is the constructor \<open>Panic\<close> of the datatype \<open>outcome\<close>. The
    panics of this file are the dereference of a \<^verbatim>\<open>nil\<close> manifest, a wait group
    counter that would become negative, and closing a closed channel.
  \<^item> The logger and the remote service are the \<open>world\<close>: the list of lines logged
    and the list of remote calls issued, both in order. What the remote service answers
    is a parameter (a field of \<open>env\<close>) that sees the calls issued so far.
  \<^item> Functions of other packages (the models of package and manifest, the manifest
    reader, the gRPC adapter, the URL parser, the process environment) are parameters,
    the other fields of \<open>env\<close>.
  \<^item> Every method of the session pool holds the pool's lock from its first to its last
    statement, so each is one atomic function of the map.
\<close>

subsection \<open>Errors and the logger\<close>

text \<open>
  \<open>Err m\<close> is an error with message \<open>m\<close> (also one returned by a function that
  is a parameter here); \<open>Wrap m e\<close> is what \<^verbatim>\<open>fmt.Errorf\<close> builds for a format
  ending in \<^verbatim>\<open>%w\<close>: the formatted message \<open>m\<close> and the wrapped error \<open>e\<close>.
\<close>

datatype error = Err string | Wrap string error

fun Error :: "error \<Rightarrow> string" where
  "Error (Err m) = m"
| "Error (Wrap m e) = m"

definition Errorf_w :: "string \<Rightarrow> error \<Rightarrow> error" where
  "Errorf_w msg e = Wrap (msg @ Error e) e"

datatype level = Debug | Warn | ErrorLevel

type_synonym log_line = "level \<times> string"

text \<open>
  How a call ends: it panics, it blocks (it waits for something the state does not yet
  offer), or it returns a value.
\<close>

datatype 'a outcome = Panic | Blocked | Returned 'a

subsection \<open>The session pool\<close>

type_synonym ToolServiceClient = nat

record syncSession =
  sessionId :: string
  toolServiceClient :: ToolServiceClient

record syncSessionPool =
  syncSessions :: "string \<rightharpoonup> syncSession"

definition addPrimarySession :: "string \<Rightarrow> ToolServiceClient \<Rightarrow> syncSessionPool \<Rightarrow> syncSessionPool" where
  "addPrimarySession sid client s =
     s\<lparr>syncSessions := (syncSessions s)(''*'' \<mapsto> \<lparr>sessionId = sid, toolServiceClient = client\<rparr>)\<rparr>"

definition addKeyedSession :: "string \<Rightarrow> string \<Rightarrow> ToolServiceClient \<Rightarrow> syncSessionPool \<Rightarrow> syncSessionPool" where
  "addKeyedSession key sid client s =
     s\<lparr>syncSessions := (syncSessions s)(key \<mapsto> \<lparr>sessionId = sid, toolServiceClient = client\<rparr>)\<rparr>"

definition getSession :: "syncSessionPool \<Rightarrow> string \<Rightarrow> error + syncSession" where
  "getSession s key =
     (case syncSessions s ''*'' of
        Some session \<Rightarrow> Inr session
      | None \<Rightarrow>
          (case syncSessions s key of
             Some session \<Rightarrow> Inr session
           | None \<Rightarrow> Inl (Err (''session not found for key: '' @ key))))"

text \<open>
  \<open>forEach\<close> ranges over the map. Go leaves the order of a range over a map
  unspecified, so the order is an argument: \<open>keys\<close> lists the keys in the order the
  range yields them (for a range over the whole map, each key of the map once). The
  visitor \<open>f\<close> acts on a state of type \<open>'w\<close>; the loop returns at the first error.
\<close>

fun forEach :: "syncSessionPool \<Rightarrow> string list \<Rightarrow>
    (string \<Rightarrow> syncSession \<Rightarrow> 'w \<Rightarrow> error option \<times> 'w) \<Rightarrow> 'w \<Rightarrow> error option \<times> 'w" where
  "forEach s [] f w = (None, w)"
| "forEach s (key # keys) f w =
     (case syncSessions s key of
        None \<Rightarrow> forEach s keys f w
      | Some session \<Rightarrow>
          (case f key session w of
             (Some err, w') \<Rightarrow> (Some err, w')
           | (None, w') \<Rightarrow> forEach s keys f w'))"

text \<open>A history of the pool: the calls that add sessions, applied in order.\<close>

datatype pool_op =
    AddPrimary string ToolServiceClient
  | AddKeyed string string ToolServiceClient

fun apply_op :: "syncSessionPool \<Rightarrow> pool_op \<Rightarrow> syncSessionPool" where
  "apply_op s (AddPrimary sid client) = addPrimarySession sid client s"
| "apply_op s (AddKeyed key sid client) = addKeyedSession key sid client s"

definition apply_ops :: "pool_op list \<Rightarrow> syncSessionPool \<Rightarrow> syncSessionPool" where
  "apply_ops ops s = foldl apply_op s ops"

fun installs_wildcard :: "pool_op \<Rightarrow> bool" where
  "installs_wildcard (AddPrimary sid client) = True"
| "installs_wildcard (AddKeyed key sid client) = (key = ''*'')"

definition emptyPool :: syncSessionPool where
  "emptyPool = \<lparr>syncSessions = Map.empty\<rparr>"

subsection \<open>Packages as the scanner hands them over\<close>

text \<open>
  The package model (\<^verbatim>\<open>models.Package\<close>, \<^verbatim>\<open>models.PackageManifest\<close>) and the insight
  types are declared in other packages; the records below hold the fields this file
  reads. A field of pointer type is an \<open>option\<close>. The fields of a vulnerability and
  of a project carry the prefixes \<open>vuln_\<close> and \<open>proj_\<close>.
\<close>

record PackageManifest =
  Path :: string
  Ecosystem :: string

record PackageVulnerability =
  vuln_Id :: "string option"
  vuln_Summary :: "string option"

record PackageProjectInfo =
  proj_Type :: "string option"
  proj_Name :: "string option"
  proj_Link :: "string option"
  proj_Stars :: "int option"
  proj_Forks :: "int option"
  proj_Issues :: "int option"

record PackageVersionInsight =
  Vulnerabilities :: "PackageVulnerability list option"
  Projects :: "PackageProjectInfo list option"
  Licenses :: "string list option"

record Package =
  Name :: string
  Version :: string
  Manifest :: "PackageManifest option"
  Insights :: "PackageVersionInsight option"

subsection \<open>The messages of the remote service\<close>

text \<open>
  A Go slice is \<^verbatim>\<open>nil\<close> or holds elements; \<^verbatim>\<open>append\<close> to either gives a slice
  that is not \<^verbatim>\<open>nil\<close>.
\<close>

datatype 'a slice = NilSlice | Slice "'a list"

fun elems :: "'a slice \<Rightarrow> 'a list" where
  "elems NilSlice = []"
| "elems (Slice xs) = xs"

fun append_slice :: "'a slice \<Rightarrow> 'a \<Rightarrow> 'a slice" where
  "append_slice NilSlice x = Slice [x]"
| "append_slice (Slice xs) x = Slice (xs @ [x])"

text \<open>
  The fields of the messages carry a prefix naming the message. The enumerations list
  the values this file names.
\<close>

datatype VulnerabilityIdentifierType =
    VULNERABILITY_IDENTIFIER_TYPE_UNSPECIFIED
  | VULNERABILITY_IDENTIFIER_TYPE_CVE
  | VULNERABILITY_IDENTIFIER_TYPE_OSV

datatype ProjectSourceType =
    PROJECT_SOURCE_TYPE_UNSPECIFIED
  | PROJECT_SOURCE_TYPE_GITHUB
  | PROJECT_SOURCE_TYPE_GITLAB

datatype ToolTrigger = TOOL_TRIGGER_MANUAL

datatype CompleteToolSessionRequest_Status = STATUS_SUCCESS

record ToolSession =
  ToolSessionId :: string

record pb_PackageManifest =
  pm_Ecosystem :: int
  pm_Namespace :: "string option"
  pm_Name :: string

record pb_Package =
  pk_Ecosystem :: int
  pk_Name :: string

record pb_PackageVersion =
  pv_Package :: "pb_Package option"
  pv_Version :: string

record VulnerabilityIdentifier =
  vi_Type :: VulnerabilityIdentifierType
  vi_Value :: string

record pb_Vulnerability =
  vu_Id :: "VulnerabilityIdentifier option"
  vu_Summary :: string

record pb_Project =
  pj_Type :: ProjectSourceType
  pj_Name :: string
  pj_Url :: string

record ProjectInsight_IssueStat =
  is_Total :: int

record pb_ProjectInsight =
  pi_Project :: "pb_Project option"
  pi_Stars :: "int option"
  pi_Forks :: "int option"
  pi_Issues :: "ProjectInsight_IssueStat option"

record LicenseMeta =
  lm_LicenseId :: string
  lm_Name :: string

record LicenseMetaList =
  ll_Licenses :: "LicenseMeta slice"

record pb_PackageVersionInsight =
  in_Dependencies :: "pb_PackageVersion slice"
  in_Vulnerabilities :: "pb_Vulnerability slice"
  in_ProjectInsights :: "pb_ProjectInsight slice"
  in_Licenses :: "LicenseMetaList option"

record PublishPackageInsightRequest =
  rq_ToolSession :: "ToolSession option"
  rq_Manifest :: "pb_PackageManifest option"
  rq_PackageVersion :: "pb_PackageVersion option"
  rq_PackageVersionInsight :: "pb_PackageVersionInsight option"

record CompleteToolSessionRequest =
  cr_ToolSession :: "ToolSession option"
  cr_Status :: CompleteToolSessionRequest_Status

record CreateToolSessionRequest =
  ct_ToolName :: string
  ct_ToolVersion :: string
  ct_ProjectName :: string
  ct_ProjectVersion :: "string option"
  ct_ProjectSource :: "ProjectSourceType option"
  ct_Trigger :: "ToolTrigger option"

datatype rpc =
    CreateToolSession ToolServiceClient CreateToolSessionRequest
  | PublishPackageInsight ToolServiceClient PublishPackageInsightRequest
  | CompleteToolSession ToolServiceClient CompleteToolSessionRequest

subsection \<open>The world and the parameters\<close>

record world =
  logs :: "log_line list"
  rpcs :: "rpc list"

definition logf :: "level \<Rightarrow> string \<Rightarrow> world \<Rightarrow> world" where
  "logf l m w = w\<lparr>logs := logs w @ [(l, m)]\<rparr>"

definition issue :: "rpc \<Rightarrow> world \<Rightarrow> world" where
  "issue c w = w\<lparr>rpcs := rpcs w @ [c]\<rparr>"

text \<open>
  The functions of other packages. The three \<open>_reply\<close> fields are the remote
  service: what it answers to a call, given the calls issued before. \<open>url_Parse\<close>
  gives the host name and the port of the parsed URL. \<open>EnumPackages\<close> lists the
  packages the manifest reader hands to its callback.
\<close>

record env =
  GetControlTowerSpecEcosystem :: "PackageManifest \<Rightarrow> int"
  GetDisplayPath :: "PackageManifest \<Rightarrow> string"
  GetName :: "Package \<Rightarrow> string"
  GetVersion :: "Package \<Rightarrow> string"
  GetDependencies :: "Package \<Rightarrow> error + Package list"
  EnumPackages :: "PackageManifest \<Rightarrow> Package list"
  url_Parse :: "string \<Rightarrow> error + string \<times> string"
  Getenv :: "string \<Rightarrow> string"
  GrpcClient :: "string \<Rightarrow> string \<Rightarrow> string \<Rightarrow> string \<Rightarrow> (string \<times> string) list \<Rightarrow> error + nat"
  NewToolServiceClient :: "nat \<Rightarrow> ToolServiceClient"
  CreateToolSession_reply :: "rpc list \<Rightarrow> ToolServiceClient \<Rightarrow> CreateToolSessionRequest \<Rightarrow> error + string"
  PublishPackageInsight_reply :: "rpc list \<Rightarrow> ToolServiceClient \<Rightarrow> PublishPackageInsightRequest \<Rightarrow> error option"
  CompleteToolSession_reply :: "rpc list \<Rightarrow> ToolServiceClient \<Rightarrow> CompleteToolSessionRequest \<Rightarrow> error option"

text \<open>
  Modelled from the spec: \<^verbatim>\<open>utils.SafelyGetValue\<close> belongs to a library outside
  this repository. The spec calls it the safe unwrap with zero-value default: the value
  behind the pointer, and the zero value of the type for \<^verbatim>\<open>nil\<close>. The zero value is
  the first argument here.
\<close>

definition SafelyGetValue :: "'a \<Rightarrow> 'a option \<Rightarrow> 'a" where
  "SafelyGetValue zero p = (case p of None \<Rightarrow> zero | Some v \<Rightarrow> v)"

text \<open>\<^verbatim>\<open>strings.HasPrefix\<close> of the Go library.\<close>

definition HasPrefix :: "string \<Rightarrow> string \<Rightarrow> bool" where
  "HasPrefix s p = (length p \<le> length s \<and> take (length p) s = p)"

text \<open>
  The conversion \<^verbatim>\<open>int64(x)\<close> of a Go \<^verbatim>\<open>int\<close>: an \<^verbatim>\<open>int\<close> has 32 or 64 bits, so the
  conversion keeps the value.
\<close>

definition int64 :: "int \<Rightarrow> int" where
  "int64 x = x"

subsection \<open>The reporter\<close>

record SyncReporterConfig =
  ControlTowerBaseUrl :: string
  ControlTowerToken :: string
  EnableMultiProjectSync :: bool
  ProjectName :: string
  ProjectVersion :: string
  TriggerEvent :: string
  GitRef :: string
  GitRefName :: string
  GitRefType :: string
  GitSha :: string
  WorkerCount :: int
  ToolName :: string
  ToolVersion :: string

definition syncReporterDefaultWorkerCount :: int where
  "syncReporterDefaultWorkerCount = 10"

text \<open>
  The struct \<^verbatim>\<open>syncReporter\<close>. \<open>workQueue\<close> is the content of the buffered channel,
  oldest first; \<open>done_closed\<close> says whether the channel \<^verbatim>\<open>done\<close> is closed (nothing
  is ever sent on it); \<open>wg\<close> is the counter of the wait group.
\<close>

record syncReporter =
  config :: SyncReporterConfig
  workQueue :: "Package list"
  done_closed :: bool
  wg :: int
  sessions :: syncSessionPool

definition workQueue_capacity :: nat where
  "workQueue_capacity = 1000"

text \<open>
  \<^verbatim>\<open>WaitGroup.Add\<close> adds to the counter and panics when the counter becomes negative;
  \<^verbatim>\<open>Done\<close> is \<^verbatim>\<open>Add(-1)\<close>.
\<close>

definition wg_Add :: "int \<Rightarrow> syncReporter \<Rightarrow> unit outcome \<times> syncReporter" where
  "wg_Add delta s =
     (let s' = s\<lparr>wg := wg s + delta\<rparr>
      in (if wg s' < 0 then Panic else Returned (), s'))"

definition wg_Done :: "syncReporter \<Rightarrow> unit outcome \<times> syncReporter" where
  "wg_Done s = wg_Add (- 1) s"

subsection \<open>syncPackage: translating and publishing one package\<close>

text \<open>
  The loop over the dependencies. A child whose manifest is \<^verbatim>\<open>nil\<close> makes the method
  call on the manifest panic.
\<close>

fun syncPackage_dependencies :: "env \<Rightarrow> Package list \<Rightarrow> pb_PackageVersion slice \<Rightarrow>
    pb_PackageVersion slice outcome" where
  "syncPackage_dependencies env [] acc = Returned acc"
| "syncPackage_dependencies env (child # rest) acc =
     (case Manifest child of
        None \<Rightarrow> Panic
      | Some m \<Rightarrow>
          syncPackage_dependencies env rest
            (append_slice acc
               \<lparr>pv_Package = Some \<lparr>pk_Ecosystem = GetControlTowerSpecEcosystem env m,
                                    pk_Name = GetName env child\<rparr>,
                pv_Version = GetVersion env child\<rparr>))"

text \<open>The body of the loop over the vulnerabilities.\<close>

definition syncPackage_vulnerability :: "PackageVulnerability \<Rightarrow> pb_Vulnerability" where
  "syncPackage_vulnerability v =
     (let vId = SafelyGetValue [] (vuln_Id v);
          ident = \<lparr>vi_Type = VULNERABILITY_IDENTIFIER_TYPE_UNSPECIFIED, vi_Value = vId\<rparr>;
          summary = SafelyGetValue [] (vuln_Summary v)
      in if HasPrefix vId ''CVE-'' then
           \<lparr>vu_Id = Some (ident\<lparr>vi_Type := VULNERABILITY_IDENTIFIER_TYPE_CVE\<rparr>), vu_Summary = summary\<rparr>
         else if HasPrefix vId ''OSV-'' then
           \<lparr>vu_Id = Some (ident\<lparr>vi_Type := VULNERABILITY_IDENTIFIER_TYPE_OSV\<rparr>), vu_Summary = summary\<rparr>
         else \<lparr>vu_Id = Some ident, vu_Summary = summary\<rparr>)"

fun syncPackage_vulnerabilities :: "PackageVulnerability list \<Rightarrow> pb_Vulnerability slice \<Rightarrow>
    pb_Vulnerability slice" where
  "syncPackage_vulnerabilities [] acc = acc"
| "syncPackage_vulnerabilities (v # rest) acc =
     syncPackage_vulnerabilities rest (append_slice acc (syncPackage_vulnerability v))"

text \<open>The body of the loop over the projects.\<close>

definition syncPackage_project :: "PackageProjectInfo \<Rightarrow> pb_ProjectInsight" where
  "syncPackage_project p =
     (let stars = int64 (SafelyGetValue 0 (proj_Stars p));
          forks = int64 (SafelyGetValue 0 (proj_Forks p));
          issues = int64 (SafelyGetValue 0 (proj_Issues p));
          t = SafelyGetValue [] (proj_Type p);
          vt = (if t = ''GITHUB'' then PROJECT_SOURCE_TYPE_GITHUB
                else if t = ''GITLAB'' then PROJECT_SOURCE_TYPE_GITLAB
                else PROJECT_SOURCE_TYPE_UNSPECIFIED)
      in \<lparr>pi_Project = Some \<lparr>pj_Type = vt,
                               pj_Name = SafelyGetValue [] (proj_Name p),
                               pj_Url = SafelyGetValue [] (proj_Link p)\<rparr>,
          pi_Stars = Some stars,
          pi_Forks = Some forks,
          pi_Issues = Some \<lparr>is_Total = issues\<rparr>\<rparr>)"

fun syncPackage_projects :: "PackageProjectInfo list \<Rightarrow> pb_ProjectInsight slice \<Rightarrow>
    pb_ProjectInsight slice" where
  "syncPackage_projects [] acc = acc"
| "syncPackage_projects (p # rest) acc =
     syncPackage_projects rest (append_slice acc (syncPackage_project p))"

fun syncPackage_licenses :: "string list \<Rightarrow> LicenseMeta slice \<Rightarrow> LicenseMeta slice" where
  "syncPackage_licenses [] acc = acc"
| "syncPackage_licenses (license # rest) acc =
     syncPackage_licenses rest (append_slice acc \<lparr>lm_LicenseId = license, lm_Name = license\<rparr>)"

text \<open>
  The request of a package whose manifest is \<open>m\<close>, for the session \<open>session\<close>: the
  source's statements from the base request to the last loop. The source appends to the
  four lists of the request it has built with empty lists; here the four lists are
  built first, each from the empty list the source starts with, and the request is
  assembled from them. The result is the request and the world (a warning may have been
  logged), or a panic.
\<close>

definition syncPackage_request :: "env \<Rightarrow> syncSession \<Rightarrow> PackageManifest \<Rightarrow> Package \<Rightarrow> world \<Rightarrow>
    (PublishPackageInsightRequest \<times> world) outcome" where
  "syncPackage_request env session m pkg w =
     (let deps_w =
            (case GetDependencies env pkg of
               Inl err \<Rightarrow>
                 Returned (Slice [],
                   logf Warn (''failed to get dependencies for package: '' @ Ecosystem m @ ''/'' @
                     GetName env pkg @ ''/'' @ GetVersion env pkg @ '': '' @ Error err) w)
             | Inr dependencies \<Rightarrow>
                 (case syncPackage_dependencies env dependencies (Slice []) of
                    Panic \<Rightarrow> Panic
                  | Blocked \<Rightarrow> Blocked
                  | Returned deps \<Rightarrow> Returned (deps, w)))
      in case deps_w of
           Panic \<Rightarrow> Panic
         | Blocked \<Rightarrow> Blocked
         | Returned (deps, w') \<Rightarrow>
             (let insights = SafelyGetValue
                    \<lparr>Vulnerabilities = None, Projects = None, Licenses = None\<rparr> (Insights pkg);
                  vulnerabilities = SafelyGetValue [] (Vulnerabilities insights);
                  project = SafelyGetValue [] (Projects insights);
                  licenses = SafelyGetValue [] (Licenses insights)
              in Returned
                   (\<lparr>rq_ToolSession = Some \<lparr>ToolSessionId = sessionId session\<rparr>,
                     rq_Manifest = Some
                       \<lparr>pm_Ecosystem = GetControlTowerSpecEcosystem env m,
                        pm_Namespace = Some (Path m),
                        pm_Name = GetDisplayPath env m\<rparr>,
                     rq_PackageVersion = Some
                       \<lparr>pv_Package = Some \<lparr>pk_Ecosystem = GetControlTowerSpecEcosystem env m,
                                            pk_Name = Name pkg\<rparr>,
                        pv_Version = Version pkg\<rparr>,
                     rq_PackageVersionInsight = Some
                       \<lparr>in_Dependencies = deps,
                        in_Vulnerabilities = syncPackage_vulnerabilities vulnerabilities (Slice []),
                        in_ProjectInsights = syncPackage_projects project (Slice []),
                        in_Licenses = Some
                          \<lparr>ll_Licenses = syncPackage_licenses licenses (Slice [])\<rparr>\<rparr>\<rparr>,
                    w')))"

text \<open>
  \<open>syncPackage_body\<close> is the function without its deferred call; \<open>syncPackage\<close>
  runs the deferred \<^verbatim>\<open>Done\<close> after it, on every path, also when the body panics. A
  panic of \<^verbatim>\<open>Done\<close> replaces the result.
\<close>

definition syncPackage_body :: "env \<Rightarrow> Package \<Rightarrow> syncReporter \<Rightarrow> world \<Rightarrow>
    error option outcome \<times> world" where
  "syncPackage_body env pkg s w =
     (case Manifest pkg of
        None \<Rightarrow> (Panic, w)
      | Some m \<Rightarrow>
          (case getSession (sessions s) (Path m) of
             Inl err \<Rightarrow>
               (Returned (Some (Errorf_w
                  (''failed to get session for package: '' @ Ecosystem m @ ''/'' @
                     GetName env pkg @ ''/'' @ GetVersion env pkg @ '': '') err)), w)
           | Inr session \<Rightarrow>
               (case syncPackage_request env session m pkg w of
                  Panic \<Rightarrow> (Panic, w)
                | Blocked \<Rightarrow> (Blocked, w)
                | Returned (req, w') \<Rightarrow>
                    (let reply = PublishPackageInsight_reply env (rpcs w') (toolServiceClient session) req;
                         w'' = issue (PublishPackageInsight (toolServiceClient session) req) w'
                     in case reply of
                          Some err \<Rightarrow>
                            (Returned (Some (Errorf_w ''failed to publish package insight: '' err)), w'')
                        | None \<Rightarrow> (Returned None, w'')))))"

definition syncPackage :: "env \<Rightarrow> Package \<Rightarrow> syncReporter \<Rightarrow> world \<Rightarrow>
    error option outcome \<times> syncReporter \<times> world" where
  "syncPackage env pkg s w =
     (case syncPackage_body env pkg s w of
        (r, w') \<Rightarrow>
          (case wg_Done s of
             (Returned u, s') \<Rightarrow> (r, s', w')
           | (other, s') \<Rightarrow> (Panic, s', w')))"

subsection \<open>The worker loop\<close>

text \<open>
  The branch of the \<^verbatim>\<open>select\<close> that received a package: \<open>syncPackage\<close>, and the
  error it returns logged.
\<close>

definition syncReportWorker_work :: "env \<Rightarrow> Package \<Rightarrow> syncReporter \<Rightarrow> world \<Rightarrow>
    unit outcome \<times> syncReporter \<times> world" where
  "syncReportWorker_work env pkg s w =
     (case syncPackage env pkg s w of
        (Returned None, s', w') \<Rightarrow> (Returned (), s', w')
      | (Returned (Some err), s', w') \<Rightarrow>
          (Returned (), s', logf ErrorLevel (''failed to sync package: '' @ Error err) w')
      | (Blocked, s', w') \<Rightarrow> (Blocked, s', w')
      | (Panic, s', w') \<Rightarrow> (Panic, s', w'))"

text \<open>
  One worker, seen from inside: the list gives what its \<^verbatim>\<open>select\<close> statements
  receive, in order. A worker that has used the list up is still in its loop, waiting
  in the \<^verbatim>\<open>select\<close>.
\<close>

datatype selected = FromWorkQueue Package | FromDone

datatype worker_status = InLoop | Exited | Crashed

fun syncReportWorker :: "env \<Rightarrow> selected list \<Rightarrow> syncReporter \<Rightarrow> world \<Rightarrow>
    worker_status \<times> syncReporter \<times> world" where
  "syncReportWorker env [] s w = (InLoop, s, w)"
| "syncReportWorker env (FromDone # rest) s w = (Exited, s, w)"
| "syncReportWorker env (FromWorkQueue pkg # rest) s w =
     (case syncReportWorker_work env pkg s w of
        (Returned u, s', w') \<Rightarrow> syncReportWorker env rest s' w'
      | (other, s', w') \<Rightarrow> (Crashed, s', w'))"

subsection \<open>The methods of the reporter\<close>

datatype worker = Idle | Busy Package | Gone

definition startWorkers :: "syncReporter \<Rightarrow> worker list" where
  "startWorkers s =
     (let count = (if WorkerCount (config s) = 0 then syncReporterDefaultWorkerCount
                   else WorkerCount (config s))
      in replicate (nat count) Idle)"

text \<open>
  \<open>NewSyncReporter\<close>. The headers are the pairs \<^verbatim>\<open>http.Header.Set\<close> stores, which
  writes a key in its canonical form. The result is the reporter with the workers
  \<open>startWorkers\<close> has started, or the error; the world is returned on both paths.
\<close>

definition NewSyncReporter :: "env \<Rightarrow> SyncReporterConfig \<Rightarrow> world \<Rightarrow>
    (error + syncReporter \<times> worker list) \<times> world" where
  "NewSyncReporter env cfg w =
     (case url_Parse env (ControlTowerBaseUrl cfg) of
        Inl err \<Rightarrow> (Inl (Errorf_w ''failed to parse ControlTower base URL: '' err), w)
      | Inr (host, parsedPort) \<Rightarrow>
          (let port = (if parsedPort = [] then ''443'' else parsedPort);
               w1 = logf Debug (''ControlTower host: '' @ host @ '', port: '' @ port) w;
               vetTenantId = Getenv env ''VET_CONTROL_TOWER_TENANT_ID'';
               vetTenantMockUser = Getenv env ''VET_CONTROL_TOWER_MOCK_USER'';
               headers = [(''X-Tenant-Id'', vetTenantId), (''X-Mock-User'', vetTenantMockUser)]
           in case GrpcClient env ''vet-sync'' host port (ControlTowerToken cfg) headers of
                Inl err \<Rightarrow> (Inl (Errorf_w ''failed to create gRPC client: '' err), w1)
              | Inr client \<Rightarrow>
                  (case (if \<not> EnableMultiProjectSync cfg then
                           (let w2 = logf Debug (''Report Sync: Creating tool session for project: '' @
                                       ProjectName cfg @ '', version: '' @ ProjectVersion cfg) w1;
                                tsc = NewToolServiceClient env client;
                                req = \<lparr>ct_ToolName = ToolName cfg,
                                       ct_ToolVersion = ToolVersion cfg,
                                       ct_ProjectName = ProjectName cfg,
                                       ct_ProjectVersion = Some (ProjectVersion cfg),
                                       ct_ProjectSource = Some PROJECT_SOURCE_TYPE_UNSPECIFIED,
                                       ct_Trigger = Some TOOL_TRIGGER_MANUAL\<rparr>;
                                reply = CreateToolSession_reply env (rpcs w2) tsc req;
                                w3 = issue (CreateToolSession tsc req) w2
                            in case reply of
                                 Inl err \<Rightarrow> (Inl (Errorf_w ''failed to create tool session: '' err), w3)
                               | Inr sid \<Rightarrow>
                                   (Inr (addPrimarySession sid tsc emptyPool),
                                    logf Debug (''Report Sync: Tool data upload session ID: '' @ sid) w3))
                         else (Inr emptyPool, w1)) of
                     (Inl err, w') \<Rightarrow> (Inl err, w')
                   | (Inr pool, w') \<Rightarrow>
                       (let self = \<lparr>config = cfg, workQueue = [], done_closed = False,
                                    wg = 0, sessions = pool\<rparr>
                        in (Inr (self, startWorkers self), w')))))"

definition Name_reporter :: "syncReporter \<Rightarrow> string" where
  "Name_reporter s = ''Cloud Sync Reporter''"

definition AddAnalyzerEvent :: "'e \<Rightarrow> syncReporter \<Rightarrow> world \<Rightarrow> syncReporter \<times> world" where
  "AddAnalyzerEvent event s w = (s, w)"

definition AddPolicyEvent :: "'e \<Rightarrow> syncReporter \<Rightarrow> world \<Rightarrow> syncReporter \<times> world" where
  "AddPolicyEvent event s w = (s, w)"

text \<open>The visitor \<open>Finish\<close> hands to \<open>forEach\<close>.\<close>

definition Finish_visitor :: "env \<Rightarrow> string \<Rightarrow> syncSession \<Rightarrow> world \<Rightarrow> error option \<times> world" where
  "Finish_visitor env key session w =
     (let w1 = logf Debug (''Report Sync: Completing tool session: '' @ sessionId session) w;
          req = \<lparr>cr_ToolSession = Some \<lparr>ToolSessionId = sessionId session\<rparr>,
                 cr_Status = STATUS_SUCCESS\<rparr>
      in (CompleteToolSession_reply env (rpcs w1) (toolServiceClient session) req,
          issue (CompleteToolSession (toolServiceClient session) req) w1))"

text \<open>
  \<open>Finish\<close>: \<^verbatim>\<open>Wait\<close> returns when the counter is zero and blocks otherwise; closing
  a closed channel panics. \<open>keys\<close> is the order in which the range over the sessions
  yields their keys.
\<close>

definition Finish :: "env \<Rightarrow> string list \<Rightarrow> syncReporter \<Rightarrow> world \<Rightarrow>
    error option outcome \<times> syncReporter \<times> world" where
  "Finish env keys s w =
     (if wg s \<noteq> 0 then (Blocked, s, w)
      else if done_closed s then (Panic, s, w)
      else (let s' = s\<lparr>done_closed := True\<rparr>
            in case forEach (sessions s') keys (Finish_visitor env) w of
                 (r, w') \<Rightarrow> (Returned r, s', w')))"

text \<open>
  \<open>queuePackage\<close> is two statements: the counter is incremented, then the package
  is sent, which waits while the channel is full.
\<close>

definition queuePackage_Add :: "syncReporter \<Rightarrow> unit outcome \<times> syncReporter" where
  "queuePackage_Add s = wg_Add 1 s"

definition queuePackage_send :: "Package \<Rightarrow> syncReporter \<Rightarrow> syncReporter outcome" where
  "queuePackage_send pkg s =
     (if length (workQueue s) < workQueue_capacity
      then Returned (s\<lparr>workQueue := workQueue s @ [pkg]\<rparr>)
      else Blocked)"

subsection \<open>The reporter and its goroutines\<close>

text \<open>
  The running system: the reporter, the world, the packages whose \<open>queuePackage\<close>
  has incremented the counter and waits to send (\<open>senders\<close>), and the workers, each
  waiting in its \<^verbatim>\<open>select\<close> (\<open>Idle\<close>), holding the package it received
  (\<open>Busy\<close>), or gone. An unrecovered panic ends the process: \<open>crashed\<close>.
\<close>

record system =
  sys_reporter :: syncReporter
  sys_world :: world
  senders :: "Package list"
  workers :: "worker list"
  crashed :: bool

text \<open>
  The steps of the goroutines. \<open>EvAdd\<close> and \<open>EvSend\<close> are the two statements of
  \<open>queuePackage\<close>; \<open>EvReceive i\<close> is worker \<open>i\<close> receiving the oldest package of
  the queue, \<open>EvSync i pkg\<close> its call of \<open>syncPackage\<close> with the logging after it,
  \<open>EvExit i\<close> its receiving from the closed channel \<^verbatim>\<open>done\<close>; \<open>EvFinish keys\<close>
  is \<open>Finish\<close> from the return of \<^verbatim>\<open>Wait\<close> on, the range yielding \<open>keys\<close>.
  No step adds a session: \<open>NewSyncReporter\<close> is the only caller of
  \<open>addPrimarySession\<close>, and \<open>addKeyedSession\<close> has no caller in the file.
\<close>

datatype event =
    EvAdd Package
  | EvSend Package
  | EvReceive nat
  | EvSync nat Package
  | EvExit nat
  | EvFinish "string list"

definition range_order :: "syncSessionPool \<Rightarrow> string list \<Rightarrow> bool" where
  "range_order s keys = (distinct keys \<and> set keys = dom (syncSessions s))"

text \<open>\<open>step\<close> is \<open>None\<close> when the event cannot happen in the state.\<close>

fun step :: "env \<Rightarrow> event \<Rightarrow> system \<Rightarrow> system option" where
  "step env (EvAdd pkg) sys =
     (if crashed sys then None
      else (case queuePackage_Add (sys_reporter sys) of
              (Returned u, s') \<Rightarrow> Some (sys\<lparr>sys_reporter := s', senders := senders sys @ [pkg]\<rparr>)
            | (other, s') \<Rightarrow> Some (sys\<lparr>sys_reporter := s', crashed := True\<rparr>)))"
| "step env (EvSend pkg) sys =
     (if crashed sys then None
      else if pkg \<in> set (senders sys) then
        (case queuePackage_send pkg (sys_reporter sys) of
           Returned s' \<Rightarrow> Some (sys\<lparr>sys_reporter := s', senders := remove1 pkg (senders sys)\<rparr>)
         | other \<Rightarrow> None)
      else None)"
| "step env (EvReceive i) sys =
     (if crashed sys then None
      else if i < length (workers sys) \<and> workers sys ! i = Idle then
        (case workQueue (sys_reporter sys) of
           [] \<Rightarrow> None
         | pkg # rest \<Rightarrow>
             Some (sys\<lparr>sys_reporter := (sys_reporter sys)\<lparr>workQueue := rest\<rparr>,
                       workers := (workers sys)[i := Busy pkg]\<rparr>))
      else None)"
| "step env (EvSync i pkg) sys =
     (if crashed sys then None
      else if i < length (workers sys) \<and> workers sys ! i = Busy pkg then
        (case syncReportWorker_work env pkg (sys_reporter sys) (sys_world sys) of
           (Returned u, s', w') \<Rightarrow>
             Some (sys\<lparr>sys_reporter := s', sys_world := w', workers := (workers sys)[i := Idle]\<rparr>)
         | (other, s', w') \<Rightarrow>
             Some (sys\<lparr>sys_reporter := s', sys_world := w',
                       workers := (workers sys)[i := Gone], crashed := True\<rparr>))
      else None)"
| "step env (EvExit i) sys =
     (if crashed sys then None
      else if i < length (workers sys) \<and> workers sys ! i = Idle \<and> done_closed (sys_reporter sys)
      then Some (sys\<lparr>workers := (workers sys)[i := Gone]\<rparr>)
      else None)"
| "step env (EvFinish keys) sys =
     (if crashed sys then None
      else if range_order (sessions (sys_reporter sys)) keys then
        (case Finish env keys (sys_reporter sys) (sys_world sys) of
           (Blocked, s', w') \<Rightarrow> None
         | (Panic, s', w') \<Rightarrow> Some (sys\<lparr>sys_reporter := s', sys_world := w', crashed := True\<rparr>)
         | (Returned r, s', w') \<Rightarrow> Some (sys\<lparr>sys_reporter := s', sys_world := w'\<rparr>))
      else None)"

fun exec :: "env \<Rightarrow> event list \<Rightarrow> system \<Rightarrow> system option" where
  "exec env [] sys = Some sys"
| "exec env (e # es) sys =
     (case step env e sys of None \<Rightarrow> None | Some sys' \<Rightarrow> exec env es sys')"

text \<open>
  \<open>AddManifest\<close> calls \<open>queuePackage\<close> for each package the manifest reader
  enumerates, in order, and ignores the error of the enumeration: it is the list of the
  steps its goroutine takes, which the steps of the workers may interleave.
\<close>

definition AddManifest :: "env \<Rightarrow> PackageManifest \<Rightarrow> event list" where
  "AddManifest env manifest =
     concat (map (\<lambda>pkg. [EvAdd pkg, EvSend pkg]) (EnumPackages env manifest))"

text \<open>The system a successful \<open>NewSyncReporter\<close> leaves behind.\<close>

definition boot :: "syncReporter \<times> worker list \<Rightarrow> world \<Rightarrow> system" where
  "boot sw w = \<lparr>sys_reporter = fst sw, sys_world = w, senders = [], workers = snd sw,
                crashed = False\<rparr>"

text \<open>
  What a run has done: the packages whose counter increment it contains, and the
  packages its workers have run \<open>syncPackage\<close> on.
\<close>

fun added :: "event list \<Rightarrow> Package list" where
  "added [] = []"
| "added (EvAdd pkg # es) = pkg # added es"
| "added (e # es) = added es"

fun synced :: "event list \<Rightarrow> Package list" where
  "synced [] = []"
| "synced (EvSync i pkg # es) = pkg # synced es"
| "synced (e # es) = synced es"

fun busy :: "worker list \<Rightarrow> Package list" where
  "busy [] = []"
| "busy (Busy pkg # ws) = pkg # busy ws"
| "busy (w # ws) = busy ws"

subsection \<open>What a package offers to the translation\<close>

text \<open>
  The entry of the dependency list for a child (none when the child has no manifest),
  and the vulnerabilities, projects and licenses a package carries: none when the
  insights or the list are \<^verbatim>\<open>nil\<close>.
\<close>

definition child_entry :: "env \<Rightarrow> Package \<Rightarrow> pb_PackageVersion option" where
  "child_entry env child =
     (case Manifest child of
        None \<Rightarrow> None
      | Some m \<Rightarrow>
          Some \<lparr>pv_Package = Some \<lparr>pk_Ecosystem = GetControlTowerSpecEcosystem env m,
                                    pk_Name = GetName env child\<rparr>,
                pv_Version = GetVersion env child\<rparr>)"

definition vulnerabilities_of :: "Package \<Rightarrow> PackageVulnerability list" where
  "vulnerabilities_of pkg =
     (case Insights pkg of
        None \<Rightarrow> []
      | Some i \<Rightarrow> (case Vulnerabilities i of None \<Rightarrow> [] | Some vs \<Rightarrow> vs))"

definition projects_of :: "Package \<Rightarrow> PackageProjectInfo list" where
  "projects_of pkg =
     (case Insights pkg of
        None \<Rightarrow> []
      | Some i \<Rightarrow> (case Projects i of None \<Rightarrow> [] | Some ps \<Rightarrow> ps))"

definition licenses_of :: "Package \<Rightarrow> string list" where
  "licenses_of pkg =
     (case Insights pkg of
        None \<Rightarrow> []
      | Some i \<Rightarrow> (case Licenses i of None \<Rightarrow> [] | Some ls \<Rightarrow> ls))"

subsection \<open>The bookkeeping of a run\<close>

text \<open>
  The packages the system owes a \<open>syncPackage\<close> call: those waiting to be sent,
  those in the queue and those a worker holds. A run and a state are balanced when the
  packages added in the run are those synced in the run together with the pending ones,
  and the counter is the number of pending packages.
\<close>

definition pending :: "system \<Rightarrow> Package multiset" where
  "pending sys =
     mset (senders sys) + mset (workQueue (sys_reporter sys)) + mset (busy (workers sys))"

definition balanced :: "event list \<Rightarrow> system \<Rightarrow> bool" where
  "balanced tr sys =
     (mset (added tr) = mset (synced tr) + pending sys \<and>
      wg (sys_reporter sys) = int (size (pending sys)))"

subsection \<open>The completion calls of Finish\<close>

text \<open>
  The completion call \<open>Finish\<close> issues for a session, and the calls it issues for a
  list of keys when no call fails: one per key that has a session, in order.
\<close>

definition completion_call :: "syncSession \<Rightarrow> rpc" where
  "completion_call session =
     CompleteToolSession (toolServiceClient session)
       \<lparr>cr_ToolSession = Some \<lparr>ToolSessionId = sessionId session\<rparr>, cr_Status = STATUS_SUCCESS\<rparr>"

definition completion_calls :: "syncSessionPool \<Rightarrow> string list \<Rightarrow> rpc list" where
  "completion_calls s keys =
     concat (map (\<lambda>key. case syncSessions s key of None \<Rightarrow> []
                          | Some session \<Rightarrow> [completion_call session]) keys)"

text \<open>
  Every completion call for the keys, issued in order after the calls \<open>h\<close>, is
  answered without an error.
\<close>

fun completions_ok :: "env \<Rightarrow> syncSessionPool \<Rightarrow> rpc list \<Rightarrow> string list \<Rightarrow> bool" where
  "completions_ok env s h [] = True"
| "completions_ok env s h (key # keys) =
     (case syncSessions s key of
        None \<Rightarrow> completions_ok env s h keys
      | Some session \<Rightarrow>
          CompleteToolSession_reply env h (toolServiceClient session)
            \<lparr>cr_ToolSession = Some \<lparr>ToolSessionId = sessionId session\<rparr>, cr_Status = STATUS_SUCCESS\<rparr>
            = None \<and>
          completions_ok env s (h @ [completion_call session]) keys)"

subsection \<open>Concrete inputs\<close>

text \<open>
  Concrete packages, reporters, parameters and runs, on which the theorems below are
  evaluated: a package with three vulnerabilities, two projects, one license and one
  dependency; that dependency, whose insights are \<^verbatim>\<open>nil\<close> and whose own dependencies
  cannot be computed; a reporter holding the single wildcard session, one with an empty
  pool and one with two keyed sessions; a remote service that accepts every publish call
  and refuses to complete the session \<open>session-a\<close>, and one that refuses every
  publish call.
\<close>

definition ex_manifest :: PackageManifest where
  "ex_manifest = \<lparr>Path = ''app/package-lock.json'', Ecosystem = ''npm''\<rparr>"

definition ex_child :: Package where
  "ex_child = \<lparr>Name = ''left-pad'', Version = ''1.3.0'', Manifest = Some ex_manifest, Insights = None\<rparr>"

definition ex_insights :: PackageVersionInsight where
  "ex_insights =
     \<lparr>Vulnerabilities = Some
        [\<lparr>vuln_Id = Some ''CVE-2023-0001'', vuln_Summary = Some ''prototype pollution''\<rparr>,
         \<lparr>vuln_Id = Some ''OSV-2021-123'', vuln_Summary = None\<rparr>,
         \<lparr>vuln_Id = Some ''GHSA-xxxx'', vuln_Summary = Some ''redos''\<rparr>],
      Projects = Some
        [\<lparr>proj_Type = Some ''GITHUB'', proj_Name = Some ''lodash/lodash'',
          proj_Link = Some ''https://github.com/lodash/lodash'',
          proj_Stars = Some 42, proj_Forks = None, proj_Issues = Some 7\<rparr>,
         \<lparr>proj_Type = Some ''BITBUCKET'', proj_Name = None, proj_Link = None,
          proj_Stars = None, proj_Forks = Some 3, proj_Issues = None\<rparr>],
      Licenses = Some [''MIT'']\<rparr>"

definition ex_pkg :: Package where
  "ex_pkg = \<lparr>Name = ''lodash'', Version = ''4.17.20'', Manifest = Some ex_manifest,
             Insights = Some ex_insights\<rparr>"

definition ex_env :: env where
  "ex_env =
     \<lparr>GetControlTowerSpecEcosystem = (\<lambda>m. if Ecosystem m = ''npm'' then 3 else 0),
      GetDisplayPath = Path,
      GetName = Name,
      GetVersion = Version,
      GetDependencies = (\<lambda>pkg. if Name pkg = ''lodash'' then Inr [ex_child]
                                else if Name pkg = ''left-pad'' then Inl (Err ''no dependency graph'')
                                else Inr []),
      EnumPackages = (\<lambda>m. [ex_child]),
      url_Parse = (\<lambda>u. if u = ''https://ct.example.com'' then Inr (''ct.example.com'', '''')
                          else Inl (Err ''invalid URL'')),
      Getenv = (\<lambda>n. ''''),
      GrpcClient = (\<lambda>n h p t hs. Inr 7),
      NewToolServiceClient = (\<lambda>c. c),
      CreateToolSession_reply = (\<lambda>h c r. Inr ''session-1''),
      PublishPackageInsight_reply = (\<lambda>h c r. None),
      CompleteToolSession_reply =
        (\<lambda>h c r. if cr_ToolSession r = Some \<lparr>ToolSessionId = ''session-a''\<rparr>
                   then Some (Err ''unavailable'') else None)\<rparr>"

definition ex_reporter :: syncReporter where
  "ex_reporter =
     \<lparr>config = \<lparr>ControlTowerBaseUrl = ''https://ct.example.com'', ControlTowerToken = ''t'',
                 EnableMultiProjectSync = False, ProjectName = ''demo'', ProjectVersion = ''main'',
                 TriggerEvent = '''', GitRef = '''', GitRefName = '''', GitRefType = '''', GitSha = '''',
                 WorkerCount = 2, ToolName = ''vet'', ToolVersion = ''1.0''\<rparr>,
      workQueue = [], done_closed = False, wg = 1,
      sessions = addPrimarySession ''session-1'' 7 emptyPool\<rparr>"

definition ex_world :: world where
  "ex_world = \<lparr>logs = [], rpcs = []\<rparr>"

definition ex_request :: PublishPackageInsightRequest where
  "ex_request =
     \<lparr>rq_ToolSession = Some \<lparr>ToolSessionId = ''session-1''\<rparr>,
      rq_Manifest = Some \<lparr>pm_Ecosystem = 3, pm_Namespace = Some ''app/package-lock.json'',
                           pm_Name = ''app/package-lock.json''\<rparr>,
      rq_PackageVersion = Some \<lparr>pv_Package = Some \<lparr>pk_Ecosystem = 3, pk_Name = ''lodash''\<rparr>,
                                 pv_Version = ''4.17.20''\<rparr>,
      rq_PackageVersionInsight = Some
        \<lparr>in_Dependencies = Slice
           [\<lparr>pv_Package = Some \<lparr>pk_Ecosystem = 3, pk_Name = ''left-pad''\<rparr>, pv_Version = ''1.3.0''\<rparr>],
         in_Vulnerabilities = Slice
           [\<lparr>vu_Id = Some \<lparr>vi_Type = VULNERABILITY_IDENTIFIER_TYPE_CVE, vi_Value = ''CVE-2023-0001''\<rparr>,
             vu_Summary = ''prototype pollution''\<rparr>,
            \<lparr>vu_Id = Some \<lparr>vi_Type = VULNERABILITY_IDENTIFIER_TYPE_OSV, vi_Value = ''OSV-2021-123''\<rparr>,
             vu_Summary = ''''\<rparr>,
            \<lparr>vu_Id = Some \<lparr>vi_Type = VULNERABILITY_IDENTIFIER_TYPE_UNSPECIFIED, vi_Value = ''GHSA-xxxx''\<rparr>,
             vu_Summary = ''redos''\<rparr>],
         in_ProjectInsights = Slice
           [\<lparr>pi_Project = Some \<lparr>pj_Type = PROJECT_SOURCE_TYPE_GITHUB, pj_Name = ''lodash/lodash'',
                                 pj_Url = ''https://github.com/lodash/lodash''\<rparr>,
             pi_Stars = Some 42, pi_Forks = Some 0, pi_Issues = Some \<lparr>is_Total = 7\<rparr>\<rparr>,
            \<lparr>pi_Project = Some \<lparr>pj_Type = PROJECT_SOURCE_TYPE_UNSPECIFIED, pj_Name = '''', pj_Url = ''''\<rparr>,
             pi_Stars = Some 0, pi_Forks = Some 3, pi_Issues = Some \<lparr>is_Total = 0\<rparr>\<rparr>],
         in_Licenses = Some \<lparr>ll_Licenses = Slice [\<lparr>lm_LicenseId = ''MIT'', lm_Name = ''MIT''\<rparr>]\<rparr>\<rparr>\<rparr>"

definition ex_child_request :: PublishPackageInsightRequest where
  "ex_child_request =
     \<lparr>rq_ToolSession = Some \<lparr>ToolSessionId = ''session-1''\<rparr>,
      rq_Manifest = Some \<lparr>pm_Ecosystem = 3, pm_Namespace = Some ''app/package-lock.json'',
                           pm_Name = ''app/package-lock.json''\<rparr>,
      rq_PackageVersion = Some \<lparr>pv_Package = Some \<lparr>pk_Ecosystem = 3, pk_Name = ''left-pad''\<rparr>,
                                 pv_Version = ''1.3.0''\<rparr>,
      rq_PackageVersionInsight = Some
        \<lparr>in_Dependencies = Slice [], in_Vulnerabilities = Slice [],
         in_ProjectInsights = Slice [],
         in_Licenses = Some \<lparr>ll_Licenses = Slice []\<rparr>\<rparr>\<rparr>"

definition ex_bare :: Package where
  "ex_bare = \<lparr>Name = ''lodash'', Version = ''4.17.20'', Manifest = Some ex_manifest,
              Insights = None\<rparr>"

definition ex_bare_request :: PublishPackageInsightRequest where
  "ex_bare_request =
     \<lparr>rq_ToolSession = Some \<lparr>ToolSessionId = ''session-1''\<rparr>,
      rq_Manifest = Some \<lparr>pm_Ecosystem = 3, pm_Namespace = Some ''app/package-lock.json'',
                           pm_Name = ''app/package-lock.json''\<rparr>,
      rq_PackageVersion = Some \<lparr>pv_Package = Some \<lparr>pk_Ecosystem = 3, pk_Name = ''lodash''\<rparr>,
                                 pv_Version = ''4.17.20''\<rparr>,
      rq_PackageVersionInsight = Some
        \<lparr>in_Dependencies = Slice
           [\<lparr>pv_Package = Some \<lparr>pk_Ecosystem = 3, pk_Name = ''left-pad''\<rparr>, pv_Version = ''1.3.0''\<rparr>],
         in_Vulnerabilities = Slice [],
         in_ProjectInsights = Slice [],
         in_Licenses = Some \<lparr>ll_Licenses = Slice []\<rparr>\<rparr>\<rparr>"

definition ex_multi_reporter :: syncReporter where
  "ex_multi_reporter = ex_reporter\<lparr>wg := 2, sessions := emptyPool\<rparr>"

definition ex_env_down :: env where
  "ex_env_down = ex_env\<lparr>PublishPackageInsight_reply := (\<lambda>h c r. Some (Err ''unavailable''))\<rparr>"

definition ex_config :: SyncReporterConfig where
  "ex_config =
     \<lparr>ControlTowerBaseUrl = ''https://ct.example.com'', ControlTowerToken = ''t'',
      EnableMultiProjectSync = False, ProjectName = ''demo'', ProjectVersion = ''main'',
      TriggerEvent = '''', GitRef = '''', GitRefName = '''', GitRefType = '''', GitSha = '''',
      WorkerCount = 2, ToolName = ''vet'', ToolVersion = ''1.0''\<rparr>"

definition ex_boot_world :: world where
  "ex_boot_world =
     \<lparr>logs = [(Debug, ''ControlTower host: ct.example.com, port: 443''),
              (Debug, ''Report Sync: Creating tool session for project: demo, version: main''),
              (Debug, ''Report Sync: Tool data upload session ID: session-1'')],
      rpcs = [CreateToolSession 7
                \<lparr>ct_ToolName = ''vet'', ct_ToolVersion = ''1.0'', ct_ProjectName = ''demo'',
                 ct_ProjectVersion = Some ''main'',
                 ct_ProjectSource = Some PROJECT_SOURCE_TYPE_UNSPECIFIED,
                 ct_Trigger = Some TOOL_TRIGGER_MANUAL\<rparr>]\<rparr>"

definition ex_run :: "event list" where
  "ex_run = AddManifest ex_env ex_manifest @ [EvReceive 0, EvSync 0 ex_child, EvFinish [''*'']]"

definition ex_final :: system where
  "ex_final =
     \<lparr>sys_reporter = ex_reporter\<lparr>done_closed := True, wg := 0\<rparr>,
      sys_world =
        \<lparr>logs = logs ex_boot_world @
           [(Warn, ''failed to get dependencies for package: npm/left-pad/1.3.0: no dependency graph''),
            (Debug, ''Report Sync: Completing tool session: session-1'')],
         rpcs = rpcs ex_boot_world @
           [PublishPackageInsight 7 ex_child_request,
            CompleteToolSession 7
              \<lparr>cr_ToolSession = Some \<lparr>ToolSessionId = ''session-1''\<rparr>, cr_Status = STATUS_SUCCESS\<rparr>]\<rparr>,
      senders = [], workers = [Idle, Idle], crashed = False\<rparr>"

definition ex_config_multi :: SyncReporterConfig where
  "ex_config_multi = ex_config\<lparr>EnableMultiProjectSync := True\<rparr>"

definition ex_multi_start :: syncReporter where
  "ex_multi_start =
     \<lparr>config = ex_config_multi, workQueue = [], done_closed = False, wg = 0,
      sessions = emptyPool\<rparr>"

definition ex_multi_world :: world where
  "ex_multi_world =
     \<lparr>logs = [(Debug, ''ControlTower host: ct.example.com, port: 443'')], rpcs = []\<rparr>"

definition ex_multi_run :: "event list" where
  "ex_multi_run = [EvAdd ex_child, EvSend ex_child, EvReceive 0, EvSync 0 ex_child]"

definition ex_multi_final :: system where
  "ex_multi_final =
     \<lparr>sys_reporter = ex_multi_start,
      sys_world =
        \<lparr>logs = [(Debug, ''ControlTower host: ct.example.com, port: 443''),
                 (ErrorLevel,
                  ''failed to sync package: failed to get session for package: npm/left-pad/1.3.0: session not found for key: app/package-lock.json'')],
         rpcs = []\<rparr>,
      senders = [], workers = [Idle, Idle], crashed = False\<rparr>"

definition ex_two_reporter :: syncReporter where
  "ex_two_reporter =
     ex_reporter\<lparr>wg := 0,
       sessions := addKeyedSession ''b.lock'' ''session-b'' 7
                     (addKeyedSession ''a.lock'' ''session-a'' 7 emptyPool)\<rparr>"

section \<open>Properties of the session pool\<close>

lemma apply_op_keeps_wildcard:
  "syncSessions s ''*'' \<noteq> None \<Longrightarrow> syncSessions (apply_op s x) ''*'' \<noteq> None"
  by (cases x) (simp_all add: addPrimarySession_def addKeyedSession_def)

lemma apply_ops_keeps_wildcard:
  "syncSessions s ''*'' \<noteq> None \<Longrightarrow> syncSessions (apply_ops xs s) ''*'' \<noteq> None"
  unfolding apply_ops_def
  by (induction xs arbitrary: s) (simp_all add: apply_op_keeps_wildcard del: not_None_eq)

lemma apply_op_same_wildcard:
  "\<not> installs_wildcard x \<Longrightarrow> syncSessions (apply_op s x) ''*'' = syncSessions s ''*''"
  by (cases x) (simp_all add: addKeyedSession_def)

lemma apply_ops_same_wildcard:
  "\<forall>x \<in> set xs. \<not> installs_wildcard x \<Longrightarrow>
   syncSessions (apply_ops xs s) ''*'' = syncSessions s ''*''"
  unfolding apply_ops_def
  by (induction xs arbitrary: s) (simp_all add: apply_op_same_wildcard)

lemma getSession_wildcard:
  "syncSessions s ''*'' = Some ws \<Longrightarrow> getSession s key = Inr ws"
  by (simp add: getSession_def)

text \<open>
  C3. In every state of the registry in which the wildcard key is present, every
  lookup returns the session stored under the wildcard key, whatever key is asked for.
  That holds in particular after the wildcard session was installed, whatever keyed
  sessions were added before and after; and when no later call writes the wildcard key,
  the session returned is the one \<open>addPrimarySession\<close> installed. When the wildcard is
  absent, the lookup returns the session stored under the exact key, and fails with the
  session-not-found error when there is none.
\<close>

theorem getSession_wildcard_supersedes:
  "(syncSessions s ''*'' = Some ws \<longrightarrow> getSession s key = Inr ws) \<and>
   (syncSessions s ''*'' = None \<longrightarrow> syncSessions s key = Some ks \<longrightarrow> getSession s key = Inr ks) \<and>
   (syncSessions s ''*'' = None \<longrightarrow> syncSessions s key = None \<longrightarrow>
      getSession s key = Inl (Err (''session not found for key: '' @ key))) \<and>
   (\<exists>ws'. syncSessions (apply_ops later (addPrimarySession sid client (apply_ops earlier s0))) ''*'' = Some ws' \<and>
      getSession (apply_ops later (addPrimarySession sid client (apply_ops earlier s0))) key = Inr ws') \<and>
   ((\<forall>x \<in> set later. \<not> installs_wildcard x) \<longrightarrow>
      getSession (apply_ops later (addPrimarySession sid client (apply_ops earlier s0))) key =
        Inr \<lparr>sessionId = sid, toolServiceClient = client\<rparr>)"
proof -
  let ?p = "addPrimarySession sid client (apply_ops earlier s0)"
  have inst: "syncSessions ?p ''*'' = Some \<lparr>sessionId = sid, toolServiceClient = client\<rparr>"
    by (simp add: addPrimarySession_def)
  then have "syncSessions (apply_ops later ?p) ''*'' \<noteq> None"
    by (intro apply_ops_keeps_wildcard) simp
  then obtain ws' where ws': "syncSessions (apply_ops later ?p) ''*'' = Some ws'"
    by blast
  have same: "(\<forall>x \<in> set later. \<not> installs_wildcard x) \<longrightarrow>
      getSession (apply_ops later ?p) key = Inr \<lparr>sessionId = sid, toolServiceClient = client\<rparr>"
    using inst by (auto simp: apply_ops_same_wildcard intro: getSession_wildcard)
  show ?thesis
    using ws' same getSession_wildcard [OF ws']
    by (simp add: getSession_def)
qed

theorem getSession_wildcard_supersedes_witness:
  "getSession (apply_ops [AddKeyed ''b.lock'' ''s3'' 0]
      (addPrimarySession ''s1'' 0 (apply_ops [AddKeyed ''a.lock'' ''s2'' 0] emptyPool))) ''a.lock''
     = Inr \<lparr>sessionId = ''s1'', toolServiceClient = 0\<rparr> \<and>
   getSession (addKeyedSession ''a.lock'' ''s2'' 0 emptyPool) ''a.lock''
     = Inr \<lparr>sessionId = ''s2'', toolServiceClient = 0\<rparr> \<and>
   getSession (addKeyedSession ''a.lock'' ''s2'' 0 emptyPool) ''b.lock''
     = Inl (Err ''session not found for key: b.lock'')"
proof -
  let ?k = "addKeyedSession ''a.lock'' ''s2'' 0 emptyPool"
  have no_wild: "syncSessions ?k ''*'' = None"
    by (simp add: addKeyedSession_def emptyPool_def)
  have hit: "syncSessions ?k ''a.lock'' = Some \<lparr>sessionId = ''s2'', toolServiceClient = 0\<rparr>"
    by (simp add: addKeyedSession_def emptyPool_def)
  have miss: "syncSessions ?k ''b.lock'' = None"
    by (simp add: addKeyedSession_def emptyPool_def)
  have later: "\<forall>x \<in> set [AddKeyed ''b.lock'' ''s3'' 0]. \<not> installs_wildcard x"
    by simp
  note w1 = getSession_wildcard_supersedes
    [where s = ?k and key = "''a.lock''" and ks = "\<lparr>sessionId = ''s2'', toolServiceClient = 0\<rparr>"
       and later = "[AddKeyed ''b.lock'' ''s3'' 0]" and earlier = "[AddKeyed ''a.lock'' ''s2'' 0]"
       and s0 = emptyPool and sid = "''s1''" and client = 0]
  note w2 = getSession_wildcard_supersedes
    [where s = ?k and key = "''b.lock''" and later = "[]" and earlier = "[]"
       and s0 = emptyPool and sid = "''s1''" and client = 0]
  show ?thesis
    using w1 w2 no_wild hit miss later by simp
qed

section \<open>Properties of the translation\<close>

lemma HasPrefix_prefix: "HasPrefix s p = prefix p s"
  unfolding HasPrefix_def
  by (metis append_eq_conv_conj prefix_def prefix_length_le append_take_drop_id)

lemma syncPackage_vulnerabilities_Slice:
  "syncPackage_vulnerabilities vs (Slice xs) = Slice (xs @ map syncPackage_vulnerability vs)"
  by (induction vs arbitrary: xs) simp_all

lemma syncPackage_projects_Slice:
  "syncPackage_projects ps (Slice xs) = Slice (xs @ map syncPackage_project ps)"
  by (induction ps arbitrary: xs) simp_all

lemma syncPackage_licenses_Slice:
  "syncPackage_licenses ls (Slice xs) =
     Slice (xs @ map (\<lambda>license. \<lparr>lm_LicenseId = license, lm_Name = license\<rparr>) ls)"
  by (induction ls arbitrary: xs) simp_all

lemma syncPackage_dependencies_Returned:
  "syncPackage_dependencies env cs (Slice xs) = Returned r \<Longrightarrow>
   (\<exists>ys. r = Slice (xs @ ys) \<and> map Some ys = map (child_entry env) cs)"
proof (induction cs arbitrary: xs)
  case Nil
  then show ?case by simp
next
  case (Cons c cs)
  from Cons.prems obtain m where m: "Manifest c = Some m"
    by (cases "Manifest c") simp_all
  define e where "e = \<lparr>pv_Package = Some \<lparr>pk_Ecosystem = GetControlTowerSpecEcosystem env m,
                                    pk_Name = GetName env c\<rparr>,
                        pv_Version = GetVersion env c\<rparr>"
  from Cons.prems m have "syncPackage_dependencies env cs (Slice (xs @ [e])) = Returned r"
    by (simp add: e_def)
  from Cons.IH [OF this] obtain ys where
    ys: "r = Slice ((xs @ [e]) @ ys)" "map Some ys = map (child_entry env) cs"
    by blast
  have "child_entry env c = Some e"
    by (simp add: child_entry_def m e_def)
  with ys have "r = Slice (xs @ (e # ys)) \<and> map Some (e # ys) = map (child_entry env) (c # cs)"
    by simp
  then show ?case by blast
qed

lemma syncPackage_dependencies_total:
  "\<forall>c \<in> set cs. Manifest c \<noteq> None \<Longrightarrow>
   \<exists>r. syncPackage_dependencies env cs (Slice xs) = Returned r"
  by (induction cs arbitrary: xs) (auto split: option.splits)

lemma syncPackage_dependencies_not_Blocked:
  "syncPackage_dependencies env cs acc \<noteq> Blocked"
  by (induction cs arbitrary: acc) (auto split: option.splits)

lemma syncPackage_request_not_Blocked:
  "syncPackage_request env session m pkg w \<noteq> Blocked"
  using syncPackage_dependencies_not_Blocked
  by (auto simp: syncPackage_request_def Let_def split: sum.splits outcome.splits)

lemma syncPackage_request_insight:
  assumes "syncPackage_request env session m pkg w = Returned (req, w')"
  shows "\<exists>deps. rq_PackageVersionInsight req = Some
           \<lparr>in_Dependencies = Slice deps,
            in_Vulnerabilities = Slice (map syncPackage_vulnerability (vulnerabilities_of pkg)),
            in_ProjectInsights = Slice (map syncPackage_project (projects_of pkg)),
            in_Licenses = Some \<lparr>ll_Licenses = Slice
              (map (\<lambda>license. \<lparr>lm_LicenseId = license, lm_Name = license\<rparr>) (licenses_of pkg))\<rparr>\<rparr> \<and>
         rpcs w' = rpcs w \<and>
         (case GetDependencies env pkg of
            Inl err \<Rightarrow> deps = [] \<and>
              w' = logf Warn (''failed to get dependencies for package: '' @ Ecosystem m @ ''/'' @
                     GetName env pkg @ ''/'' @ GetVersion env pkg @ '': '' @ Error err) w
          | Inr cs \<Rightarrow> map Some deps = map (child_entry env) cs \<and> w' = w)"
proof (cases "GetDependencies env pkg")
  case (Inl err)
  with assms show ?thesis
    by (auto simp: syncPackage_request_def Let_def SafelyGetValue_def vulnerabilities_of_def
        projects_of_def licenses_of_def syncPackage_vulnerabilities_Slice syncPackage_projects_Slice
        syncPackage_licenses_Slice logf_def split: option.splits)
next
  case (Inr cs)
  with assms obtain r where r: "syncPackage_dependencies env cs (Slice []) = Returned r"
    by (auto simp: syncPackage_request_def Let_def split: outcome.splits)
  from syncPackage_dependencies_Returned [OF r] obtain ys where
    ys: "r = Slice ys" "map Some ys = map (child_entry env) cs"
    by auto
  from assms Inr r ys show ?thesis
    by (auto simp: syncPackage_request_def Let_def SafelyGetValue_def vulnerabilities_of_def
        projects_of_def licenses_of_def syncPackage_vulnerabilities_Slice syncPackage_projects_Slice
        syncPackage_licenses_Slice split: option.splits)
qed

lemma syncPackage_state:
  "syncPackage env pkg s w = (r, s', w') \<Longrightarrow> s' = s\<lparr>wg := wg s - 1\<rparr>"
  by (auto simp: syncPackage_def wg_Done_def wg_Add_def Let_def
      split: prod.splits outcome.splits if_splits)

lemma syncPackage_cases:
  assumes "syncPackage env pkg s w = (r, s', w')"
  shows "(Manifest pkg = None \<and> r = Panic \<and> w' = w) \<or>
    (\<exists>m err. Manifest pkg = Some m \<and> getSession (sessions s) (Path m) = Inl err \<and> w' = w \<and>
       r = (if wg s < 1 then Panic else Returned (Some (Errorf_w
              (''failed to get session for package: '' @ Ecosystem m @ ''/'' @
                 GetName env pkg @ ''/'' @ GetVersion env pkg @ '': '') err)))) \<or>
    (\<exists>m session. Manifest pkg = Some m \<and> getSession (sessions s) (Path m) = Inr session \<and>
       syncPackage_request env session m pkg w = Panic \<and> r = Panic \<and> w' = w) \<or>
    (\<exists>m session req w1. Manifest pkg = Some m \<and> getSession (sessions s) (Path m) = Inr session \<and>
       syncPackage_request env session m pkg w = Returned (req, w1) \<and>
       w' = issue (PublishPackageInsight (toolServiceClient session) req) w1 \<and>
       r = (if wg s < 1 then Panic
            else Returned (map_option (Errorf_w ''failed to publish package insight: '')
                   (PublishPackageInsight_reply env (rpcs w1) (toolServiceClient session) req))))"
proof (cases "Manifest pkg")
  case None
  with assms show ?thesis
    by (auto simp: syncPackage_def syncPackage_body_def wg_Done_def wg_Add_def Let_def
        split: prod.splits outcome.splits if_splits)
next
  case (Some m)
  show ?thesis
  proof (cases "getSession (sessions s) (Path m)")
    case (Inl err)
    with assms Some show ?thesis
      by (auto simp: syncPackage_def syncPackage_body_def wg_Done_def wg_Add_def Let_def
          split: prod.splits outcome.splits if_splits)
  next
    case (Inr session)
    show ?thesis
    proof (cases "syncPackage_request env session m pkg w")
      case Panic
      with assms Some Inr show ?thesis
        by (auto simp: syncPackage_def syncPackage_body_def wg_Done_def wg_Add_def Let_def
            split: prod.splits outcome.splits if_splits)
    next
      case Blocked
      then show ?thesis by (simp add: syncPackage_request_not_Blocked)
    next
      case (Returned rw)
      obtain req w1 where rw: "rw = (req, w1)" by (cases rw)
      from assms Some Inr Returned rw show ?thesis
        by (auto simp: syncPackage_def syncPackage_body_def wg_Done_def wg_Add_def Let_def
            split: prod.splits outcome.splits if_splits option.splits)
    qed
  qed
qed

lemma ex_getSession:
  "getSession (sessions ex_reporter) key = Inr \<lparr>sessionId = ''session-1'', toolServiceClient = 7\<rparr>"
  by (simp add: getSession_def ex_reporter_def addPrimarySession_def emptyPool_def)

lemma ex_syncPackage_request:
  "syncPackage_request ex_env \<lparr>sessionId = ''session-1'', toolServiceClient = 7\<rparr> ex_manifest ex_pkg ex_world
     = Returned (ex_request, ex_world)"
  by (simp add: syncPackage_request_def ex_env_def ex_pkg_def ex_child_def ex_manifest_def
      ex_insights_def ex_request_def SafelyGetValue_def syncPackage_vulnerability_def
      syncPackage_project_def HasPrefix_def int64_def Let_def)

lemma ex_syncPackage_body:
  "syncPackage_body ex_env ex_pkg ex_reporter ex_world =
     (Returned None, ex_world\<lparr>rpcs := [PublishPackageInsight 7 ex_request]\<rparr>)"
proof -
  have m: "Manifest ex_pkg = Some ex_manifest" by (simp add: ex_pkg_def)
  have r: "PublishPackageInsight_reply ex_env = (\<lambda>h c r. None)" by (simp add: ex_env_def)
  have "syncPackage_body ex_env ex_pkg ex_reporter ex_world =
      (Returned None, issue (PublishPackageInsight 7 ex_request) ex_world)"
    by (simp add: syncPackage_body_def m ex_getSession ex_syncPackage_request r Let_def)
  then show ?thesis
    by (simp add: issue_def ex_world_def)
qed

lemma ex_syncPackage:
  "syncPackage ex_env ex_pkg ex_reporter ex_world =
     (Returned None, ex_reporter\<lparr>wg := 0\<rparr>, ex_world\<lparr>rpcs := [PublishPackageInsight 7 ex_request]\<rparr>)"
proof -
  have d: "wg_Done ex_reporter = (Returned (), ex_reporter\<lparr>wg := 0\<rparr>)"
    by (simp add: wg_Done_def wg_Add_def Let_def ex_reporter_def)
  show ?thesis
    by (simp add: syncPackage_def ex_syncPackage_body d)
qed

text \<open>
  C5. Whenever \<open>syncPackage\<close> publishes a request, the vulnerability list of the
  request has one entry per vulnerability of the package, in order: its identifier type
  is CVE when the identifier starts with \<open>CVE-\<close>, OSV when it starts with
  \<open>OSV-\<close>, and the unspecified type otherwise; the identifier value and the summary
  are those of the vulnerability (the empty string for a \<^verbatim>\<open>nil\<close> pointer).
\<close>

theorem published_vulnerability_types:
  assumes "syncPackage env pkg s w = (r, s', w')"
      and "rpcs w' = rpcs w @ [PublishPackageInsight client req]"
  shows "\<exists>ins. rq_PackageVersionInsight req = Some ins \<and>
           elems (in_Vulnerabilities ins) =
             map (\<lambda>v. \<lparr>vu_Id = Some
                          \<lparr>vi_Type =
                             (if prefix ''CVE-'' (case vuln_Id v of None \<Rightarrow> [] | Some x \<Rightarrow> x)
                              then VULNERABILITY_IDENTIFIER_TYPE_CVE
                              else if prefix ''OSV-'' (case vuln_Id v of None \<Rightarrow> [] | Some x \<Rightarrow> x)
                              then VULNERABILITY_IDENTIFIER_TYPE_OSV
                              else VULNERABILITY_IDENTIFIER_TYPE_UNSPECIFIED),
                           vi_Value = (case vuln_Id v of None \<Rightarrow> [] | Some x \<Rightarrow> x)\<rparr>,
                        vu_Summary = (case vuln_Summary v of None \<Rightarrow> [] | Some x \<Rightarrow> x)\<rparr>)
               (vulnerabilities_of pkg)"
proof -
  have entry: "syncPackage_vulnerability v =
      \<lparr>vu_Id = Some
          \<lparr>vi_Type =
             (if prefix ''CVE-'' (case vuln_Id v of None \<Rightarrow> [] | Some x \<Rightarrow> x)
              then VULNERABILITY_IDENTIFIER_TYPE_CVE
              else if prefix ''OSV-'' (case vuln_Id v of None \<Rightarrow> [] | Some x \<Rightarrow> x)
              then VULNERABILITY_IDENTIFIER_TYPE_OSV
              else VULNERABILITY_IDENTIFIER_TYPE_UNSPECIFIED),
           vi_Value = (case vuln_Id v of None \<Rightarrow> [] | Some x \<Rightarrow> x)\<rparr>,
        vu_Summary = (case vuln_Summary v of None \<Rightarrow> [] | Some x \<Rightarrow> x)\<rparr>" for v
    unfolding syncPackage_vulnerability_def HasPrefix_prefix SafelyGetValue_def Let_def
    by simp
  from syncPackage_cases [OF assms(1)] assms(2)
  obtain m session w1 where req: "syncPackage_request env session m pkg w = Returned (req, w1)"
    by (auto simp: issue_def dest: syncPackage_request_insight)
  from syncPackage_request_insight [OF req] show ?thesis
    by (auto simp: entry)
qed

theorem published_vulnerability_types_witness:
  "\<exists>ins. rq_PackageVersionInsight ex_request = Some ins \<and>
     elems (in_Vulnerabilities ins) =
       [\<lparr>vu_Id = Some \<lparr>vi_Type = VULNERABILITY_IDENTIFIER_TYPE_CVE, vi_Value = ''CVE-2023-0001''\<rparr>,
         vu_Summary = ''prototype pollution''\<rparr>,
        \<lparr>vu_Id = Some \<lparr>vi_Type = VULNERABILITY_IDENTIFIER_TYPE_OSV, vi_Value = ''OSV-2021-123''\<rparr>,
         vu_Summary = ''''\<rparr>,
        \<lparr>vu_Id = Some \<lparr>vi_Type = VULNERABILITY_IDENTIFIER_TYPE_UNSPECIFIED, vi_Value = ''GHSA-xxxx''\<rparr>,
         vu_Summary = ''redos''\<rparr>]"
proof -
  have pub: "rpcs (ex_world\<lparr>rpcs := [PublishPackageInsight 7 ex_request]\<rparr>) =
      rpcs ex_world @ [PublishPackageInsight 7 ex_request]"
    by (simp add: ex_world_def)
  have vs: "vulnerabilities_of ex_pkg =
      [\<lparr>vuln_Id = Some ''CVE-2023-0001'', vuln_Summary = Some ''prototype pollution''\<rparr>,
       \<lparr>vuln_Id = Some ''OSV-2021-123'', vuln_Summary = None\<rparr>,
       \<lparr>vuln_Id = Some ''GHSA-xxxx'', vuln_Summary = Some ''redos''\<rparr>]"
    by (simp add: vulnerabilities_of_def ex_pkg_def ex_insights_def)
  from published_vulnerability_types [OF ex_syncPackage pub] show ?thesis
    unfolding vs by simp
qed

lemma syncPackage_request_total:
  assumes "case GetDependencies env pkg of Inl err \<Rightarrow> True
           | Inr cs \<Rightarrow> (\<forall>c \<in> set cs. Manifest c \<noteq> None)"
  shows "\<exists>req w1. syncPackage_request env session m pkg w = Returned (req, w1)"
proof (cases "GetDependencies env pkg")
  case (Inl err)
  then show ?thesis
    by (simp add: syncPackage_request_def Let_def)
next
  case (Inr cs)
  with assms have "\<forall>c \<in> set cs. Manifest c \<noteq> None" by simp
  from syncPackage_dependencies_total [OF this] obtain r where
    "syncPackage_dependencies env cs (Slice []) = Returned r" by blast
  with Inr show ?thesis
    by (simp add: syncPackage_request_def Let_def)
qed

lemma syncPackage_publishes:
  assumes run: "syncPackage env pkg s w = (r, s', w')"
      and m: "Manifest pkg = Some m"
      and session: "getSession (sessions s) (Path m) = Inr session"
      and deps: "case GetDependencies env pkg of Inl err \<Rightarrow> True
                 | Inr cs \<Rightarrow> (\<forall>c \<in> set cs. Manifest c \<noteq> None)"
  shows "\<exists>req w1. syncPackage_request env session m pkg w = Returned (req, w1) \<and>
           w' = issue (PublishPackageInsight (toolServiceClient session) req) w1 \<and>
           r = (if wg s < 1 then Panic
                else Returned (map_option (Errorf_w ''failed to publish package insight: '')
                       (PublishPackageInsight_reply env (rpcs w1) (toolServiceClient session) req)))"
proof -
  from syncPackage_request_total [OF deps] obtain req0 w0 where
    "syncPackage_request env session m pkg w = Returned (req0, w0)" by blast
  with syncPackage_cases [OF run] m session show ?thesis
    by auto
qed

text \<open>
  C8. Whenever \<open>syncPackage\<close> publishes a request, the project insight list of the
  request has one entry per project of the package, in order: its source type is GITHUB
  for the type string \<open>GITHUB\<close>, GITLAB for \<open>GITLAB\<close> and unspecified for every
  other type string and for none; its star, fork and issue counts are present and are the
  project's values, zero where the project has none.
\<close>

theorem published_project_insights:
  assumes "syncPackage env pkg s w = (r, s', w')"
      and "rpcs w' = rpcs w @ [PublishPackageInsight client req]"
  shows "\<exists>ins. rq_PackageVersionInsight req = Some ins \<and>
           elems (in_ProjectInsights ins) =
             map (\<lambda>p. \<lparr>pi_Project = Some
                          \<lparr>pj_Type =
                             (if proj_Type p = Some ''GITHUB'' then PROJECT_SOURCE_TYPE_GITHUB
                              else if proj_Type p = Some ''GITLAB'' then PROJECT_SOURCE_TYPE_GITLAB
                              else PROJECT_SOURCE_TYPE_UNSPECIFIED),
                           pj_Name = (case proj_Name p of None \<Rightarrow> [] | Some x \<Rightarrow> x),
                           pj_Url = (case proj_Link p of None \<Rightarrow> [] | Some x \<Rightarrow> x)\<rparr>,
                        pi_Stars = Some (case proj_Stars p of None \<Rightarrow> 0 | Some n \<Rightarrow> n),
                        pi_Forks = Some (case proj_Forks p of None \<Rightarrow> 0 | Some n \<Rightarrow> n),
                        pi_Issues = Some
                          \<lparr>is_Total = (case proj_Issues p of None \<Rightarrow> 0 | Some n \<Rightarrow> n)\<rparr>\<rparr>)
               (projects_of pkg)"
proof -
  have entry: "syncPackage_project p =
      \<lparr>pi_Project = Some
          \<lparr>pj_Type =
             (if proj_Type p = Some ''GITHUB'' then PROJECT_SOURCE_TYPE_GITHUB
              else if proj_Type p = Some ''GITLAB'' then PROJECT_SOURCE_TYPE_GITLAB
              else PROJECT_SOURCE_TYPE_UNSPECIFIED),
           pj_Name = (case proj_Name p of None \<Rightarrow> [] | Some x \<Rightarrow> x),
           pj_Url = (case proj_Link p of None \<Rightarrow> [] | Some x \<Rightarrow> x)\<rparr>,
        pi_Stars = Some (case proj_Stars p of None \<Rightarrow> 0 | Some n \<Rightarrow> n),
        pi_Forks = Some (case proj_Forks p of None \<Rightarrow> 0 | Some n \<Rightarrow> n),
        pi_Issues = Some \<lparr>is_Total = (case proj_Issues p of None \<Rightarrow> 0 | Some n \<Rightarrow> n)\<rparr>\<rparr>" for p
    unfolding syncPackage_project_def SafelyGetValue_def int64_def Let_def
    by (cases "proj_Type p") simp_all
  from syncPackage_cases [OF assms(1)] assms(2)
  obtain m session w1 where req: "syncPackage_request env session m pkg w = Returned (req, w1)"
    by (auto simp: issue_def dest: syncPackage_request_insight)
  from syncPackage_request_insight [OF req] show ?thesis
    by (auto simp: entry)
qed

theorem published_project_insights_witness:
  "\<exists>ins. rq_PackageVersionInsight ex_request = Some ins \<and>
     elems (in_ProjectInsights ins) =
       [\<lparr>pi_Project = Some \<lparr>pj_Type = PROJECT_SOURCE_TYPE_GITHUB, pj_Name = ''lodash/lodash'',
                             pj_Url = ''https://github.com/lodash/lodash''\<rparr>,
         pi_Stars = Some 42, pi_Forks = Some 0, pi_Issues = Some \<lparr>is_Total = 7\<rparr>\<rparr>,
        \<lparr>pi_Project = Some \<lparr>pj_Type = PROJECT_SOURCE_TYPE_UNSPECIFIED, pj_Name = '''', pj_Url = ''''\<rparr>,
         pi_Stars = Some 0, pi_Forks = Some 3, pi_Issues = Some \<lparr>is_Total = 0\<rparr>\<rparr>]"
proof -
  have pub: "rpcs (ex_world\<lparr>rpcs := [PublishPackageInsight 7 ex_request]\<rparr>) =
      rpcs ex_world @ [PublishPackageInsight 7 ex_request]"
    by (simp add: ex_world_def)
  have ps: "projects_of ex_pkg =
      [\<lparr>proj_Type = Some ''GITHUB'', proj_Name = Some ''lodash/lodash'',
        proj_Link = Some ''https://github.com/lodash/lodash'',
        proj_Stars = Some 42, proj_Forks = None, proj_Issues = Some 7\<rparr>,
       \<lparr>proj_Type = Some ''BITBUCKET'', proj_Name = None, proj_Link = None,
        proj_Stars = None, proj_Forks = Some 3, proj_Issues = None\<rparr>]"
    by (simp add: projects_of_def ex_pkg_def ex_insights_def)
  from published_project_insights [OF ex_syncPackage pub] show ?thesis
    unfolding ps by simp
qed

lemma ex_child_syncPackage_request:
  "syncPackage_request ex_env \<lparr>sessionId = ''session-1'', toolServiceClient = 7\<rparr> ex_manifest ex_child ex_world
     = Returned (ex_child_request,
         logf Warn ''failed to get dependencies for package: npm/left-pad/1.3.0: no dependency graph''
           ex_world)"
  by (simp add: syncPackage_request_def ex_env_def ex_child_def ex_manifest_def
      ex_child_request_def SafelyGetValue_def Let_def)

lemma ex_bare_syncPackage_request:
  "syncPackage_request ex_env \<lparr>sessionId = ''session-1'', toolServiceClient = 7\<rparr> ex_manifest ex_bare ex_world
     = Returned (ex_bare_request, ex_world)"
  by (simp add: syncPackage_request_def ex_env_def ex_bare_def ex_child_def ex_manifest_def
      ex_bare_request_def SafelyGetValue_def Let_def)

lemma ex_wg_Done: "wg_Done ex_reporter = (Returned (), ex_reporter\<lparr>wg := 0\<rparr>)"
  by (simp add: wg_Done_def wg_Add_def Let_def ex_reporter_def)

lemma ex_publish_reply: "PublishPackageInsight_reply ex_env = (\<lambda>h c r. None)"
  by (simp add: ex_env_def)

lemma ex_child_syncPackage:
  "syncPackage ex_env ex_child ex_reporter ex_world =
     (Returned None, ex_reporter\<lparr>wg := 0\<rparr>,
      \<lparr>logs = [(Warn, ''failed to get dependencies for package: npm/left-pad/1.3.0: no dependency graph'')],
       rpcs = [PublishPackageInsight 7 ex_child_request]\<rparr>)"
proof -
  have m: "Manifest ex_child = Some ex_manifest" by (simp add: ex_child_def)
  have "syncPackage_body ex_env ex_child ex_reporter ex_world =
      (Returned None, issue (PublishPackageInsight 7 ex_child_request)
         (logf Warn ''failed to get dependencies for package: npm/left-pad/1.3.0: no dependency graph''
            ex_world))"
    by (simp add: syncPackage_body_def m ex_getSession ex_child_syncPackage_request
        ex_publish_reply Let_def)
  then show ?thesis
    by (simp add: syncPackage_def ex_wg_Done issue_def logf_def ex_world_def)
qed

lemma ex_bare_syncPackage:
  "syncPackage ex_env ex_bare ex_reporter ex_world =
     (Returned None, ex_reporter\<lparr>wg := 0\<rparr>,
      \<lparr>logs = [], rpcs = [PublishPackageInsight 7 ex_bare_request]\<rparr>)"
proof -
  have m: "Manifest ex_bare = Some ex_manifest" by (simp add: ex_bare_def)
  have "syncPackage_body ex_env ex_bare ex_reporter ex_world =
      (Returned None, issue (PublishPackageInsight 7 ex_bare_request) ex_world)"
    by (simp add: syncPackage_body_def m ex_getSession ex_bare_syncPackage_request
        ex_publish_reply Let_def)
  then show ?thesis
    by (simp add: syncPackage_def ex_wg_Done issue_def ex_world_def)
qed

text \<open>
  C6. For a package with a manifest and a session: when \<open>GetDependencies\<close> returns an
  error, \<open>syncPackage\<close> logs one warning and still publishes a request, whose
  dependency list is empty, and what it returns is the outcome of the publish call alone
  (\<^verbatim>\<open>nil\<close> when the publish call succeeds); when \<open>GetDependencies\<close> returns the
  children (each with its manifest), the dependency list of the published request has one
  entry per child, in order, holding the ecosystem, the name and the version of the
  child.
\<close>

theorem dependencies_best_effort:
  assumes "syncPackage env pkg s w = (r, s', w')"
      and "Manifest pkg = Some m"
      and "getSession (sessions s) (Path m) = Inr session"
  shows "(\<forall>err. GetDependencies env pkg = Inl err \<longrightarrow>
            (\<exists>req ins.
               w' = issue (PublishPackageInsight (toolServiceClient session) req)
                      (logf Warn (''failed to get dependencies for package: '' @ Ecosystem m @ ''/'' @
                         GetName env pkg @ ''/'' @ GetVersion env pkg @ '': '' @ Error err) w) \<and>
               rq_PackageVersionInsight req = Some ins \<and>
               in_Dependencies ins = Slice [] \<and>
               (0 < wg s \<longrightarrow>
                  r = Returned (map_option (Errorf_w ''failed to publish package insight: '')
                        (PublishPackageInsight_reply env (rpcs w) (toolServiceClient session) req))))) \<and>
         (\<forall>cs. GetDependencies env pkg = Inr cs \<longrightarrow> (\<forall>c \<in> set cs. Manifest c \<noteq> None) \<longrightarrow>
            (\<exists>req ins.
               w' = issue (PublishPackageInsight (toolServiceClient session) req) w \<and>
               rq_PackageVersionInsight req = Some ins \<and>
               map Some (elems (in_Dependencies ins)) = map (child_entry env) cs))"
proof (intro conjI allI impI)
  fix err
  assume e: "GetDependencies env pkg = Inl err"
  then have "case GetDependencies env pkg of Inl err \<Rightarrow> True
             | Inr cs \<Rightarrow> (\<forall>c \<in> set cs. Manifest c \<noteq> None)"
    by simp
  from syncPackage_publishes [OF assms this] obtain req w1 where
    req: "syncPackage_request env session m pkg w = Returned (req, w1)" and
    w': "w' = issue (PublishPackageInsight (toolServiceClient session) req) w1" and
    r: "r = (if wg s < 1 then Panic
             else Returned (map_option (Errorf_w ''failed to publish package insight: '')
                    (PublishPackageInsight_reply env (rpcs w1) (toolServiceClient session) req)))"
    by blast
  from syncPackage_request_insight [OF req] e obtain ins where
    "rq_PackageVersionInsight req = Some ins" "in_Dependencies ins = Slice []"
    "w1 = logf Warn (''failed to get dependencies for package: '' @ Ecosystem m @ ''/'' @
            GetName env pkg @ ''/'' @ GetVersion env pkg @ '': '' @ Error err) w"
    "rpcs w1 = rpcs w"
    by auto
  with w' r show "\<exists>req ins.
       w' = issue (PublishPackageInsight (toolServiceClient session) req)
              (logf Warn (''failed to get dependencies for package: '' @ Ecosystem m @ ''/'' @
                 GetName env pkg @ ''/'' @ GetVersion env pkg @ '': '' @ Error err) w) \<and>
       rq_PackageVersionInsight req = Some ins \<and>
       in_Dependencies ins = Slice [] \<and>
       (0 < wg s \<longrightarrow>
          r = Returned (map_option (Errorf_w ''failed to publish package insight: '')
                (PublishPackageInsight_reply env (rpcs w) (toolServiceClient session) req)))"
    by auto
next
  fix cs
  assume c: "GetDependencies env pkg = Inr cs" and ms: "\<forall>c \<in> set cs. Manifest c \<noteq> None"
  then have "case GetDependencies env pkg of Inl err \<Rightarrow> True
             | Inr cs \<Rightarrow> (\<forall>c \<in> set cs. Manifest c \<noteq> None)"
    by simp
  from syncPackage_publishes [OF assms this] obtain req w1 where
    req: "syncPackage_request env session m pkg w = Returned (req, w1)" and
    w': "w' = issue (PublishPackageInsight (toolServiceClient session) req) w1"
    by blast
  from syncPackage_request_insight [OF req] c obtain ins where
    "rq_PackageVersionInsight req = Some ins"
    "map Some (elems (in_Dependencies ins)) = map (child_entry env) cs" "w1 = w"
    by auto
  with w' show "\<exists>req ins.
       w' = issue (PublishPackageInsight (toolServiceClient session) req) w \<and>
       rq_PackageVersionInsight req = Some ins \<and>
       map Some (elems (in_Dependencies ins)) = map (child_entry env) cs"
    by auto
qed

theorem dependencies_best_effort_witness:
  "(\<exists>ins. rq_PackageVersionInsight ex_child_request = Some ins \<and> in_Dependencies ins = Slice []) \<and>
   syncPackage ex_env ex_child ex_reporter ex_world =
     (Returned None, ex_reporter\<lparr>wg := 0\<rparr>,
      \<lparr>logs = [(Warn, ''failed to get dependencies for package: npm/left-pad/1.3.0: no dependency graph'')],
       rpcs = [PublishPackageInsight 7 ex_child_request]\<rparr>) \<and>
   (\<exists>ins. rq_PackageVersionInsight ex_request = Some ins \<and>
      elems (in_Dependencies ins) =
        [\<lparr>pv_Package = Some \<lparr>pk_Ecosystem = 3, pk_Name = ''left-pad''\<rparr>, pv_Version = ''1.3.0''\<rparr>])"
proof -
  have m1: "Manifest ex_child = Some ex_manifest" by (simp add: ex_child_def)
  have d1: "GetDependencies ex_env ex_child = Inl (Err ''no dependency graph'')"
    by (simp add: ex_env_def ex_child_def)
  from dependencies_best_effort [OF ex_child_syncPackage m1 ex_getSession] d1
  obtain req ins where
    w: "\<lparr>logs = [(Warn, ''failed to get dependencies for package: npm/left-pad/1.3.0: no dependency graph'')],
         rpcs = [PublishPackageInsight 7 ex_child_request]\<rparr> =
        issue (PublishPackageInsight (toolServiceClient \<lparr>sessionId = ''session-1'', toolServiceClient = 7\<rparr>) req)
          (logf Warn (''failed to get dependencies for package: '' @ Ecosystem ex_manifest @ ''/'' @
             GetName ex_env ex_child @ ''/'' @ GetVersion ex_env ex_child @ '': '' @
             Error (Err ''no dependency graph'')) ex_world)" and
    ins: "rq_PackageVersionInsight req = Some ins" "in_Dependencies ins = Slice []"
    by blast
  from w have "rpcs \<lparr>logs = [(Warn, ''failed to get dependencies for package: npm/left-pad/1.3.0: no dependency graph'')],
         rpcs = [PublishPackageInsight 7 ex_child_request]\<rparr> = rpcs (issue (PublishPackageInsight (toolServiceClient \<lparr>sessionId = ''session-1'', toolServiceClient = 7\<rparr>) req)
          (logf Warn (''failed to get dependencies for package: '' @ Ecosystem ex_manifest @ ''/'' @
             GetName ex_env ex_child @ ''/'' @ GetVersion ex_env ex_child @ '': '' @
             Error (Err ''no dependency graph'')) ex_world))"
    by (rule arg_cong)
  then have "req = ex_child_request"
    by (simp add: issue_def logf_def ex_world_def)
  with ins have first: "\<exists>ins. rq_PackageVersionInsight ex_child_request = Some ins \<and>
      in_Dependencies ins = Slice []"
    by blast
  have m2: "Manifest ex_pkg = Some ex_manifest" by (simp add: ex_pkg_def)
  have d2: "GetDependencies ex_env ex_pkg = Inr [ex_child]"
    by (simp add: ex_env_def ex_pkg_def)
  have c2: "\<forall>c \<in> set [ex_child]. Manifest c \<noteq> None" by (simp add: ex_child_def)
  from dependencies_best_effort [OF ex_syncPackage m2 ex_getSession] d2 c2
  obtain req' ins' where
    w': "ex_world\<lparr>rpcs := [PublishPackageInsight 7 ex_request]\<rparr> =
        issue (PublishPackageInsight (toolServiceClient \<lparr>sessionId = ''session-1'', toolServiceClient = 7\<rparr>) req')
          ex_world" and
    ins': "rq_PackageVersionInsight req' = Some ins'"
      "map Some (elems (in_Dependencies ins')) = map (child_entry ex_env) [ex_child]"
    by blast
  from w' have "rpcs (ex_world\<lparr>rpcs := [PublishPackageInsight 7 ex_request]\<rparr>) =
      rpcs (issue (PublishPackageInsight (toolServiceClient \<lparr>sessionId = ''session-1'', toolServiceClient = 7\<rparr>) req')
          ex_world)"
    by (rule arg_cong)
  then have req': "req' = ex_request"
    by (simp add: issue_def ex_world_def)
  have "child_entry ex_env ex_child =
      Some \<lparr>pv_Package = Some \<lparr>pk_Ecosystem = 3, pk_Name = ''left-pad''\<rparr>, pv_Version = ''1.3.0''\<rparr>"
    by (simp add: child_entry_def ex_child_def ex_env_def ex_manifest_def)
  with ins' req' have second: "\<exists>ins. rq_PackageVersionInsight ex_request = Some ins \<and>
      elems (in_Dependencies ins) =
        [\<lparr>pv_Package = Some \<lparr>pk_Ecosystem = 3, pk_Name = ''left-pad''\<rparr>, pv_Version = ''1.3.0''\<rparr>]"
    by (auto simp: map_eq_Cons_conv)
  from first second ex_child_syncPackage show ?thesis by blast
qed

text \<open>
  C7, as the claim states it, fails: a package whose insights are \<^verbatim>\<open>nil\<close> is
  published with a dependency list that is not empty when \<open>GetDependencies\<close> returns
  a child, since the dependencies do not come from the insights.
\<close>

theorem absent_insights_dependencies_counterexample:
  "Insights ex_bare = None \<and>
   syncPackage ex_env ex_bare ex_reporter ex_world =
     (Returned None, ex_reporter\<lparr>wg := 0\<rparr>,
      \<lparr>logs = [], rpcs = [PublishPackageInsight 7 ex_bare_request]\<rparr>) \<and>
   rq_PackageVersionInsight ex_bare_request = Some
     \<lparr>in_Dependencies = Slice
        [\<lparr>pv_Package = Some \<lparr>pk_Ecosystem = 3, pk_Name = ''left-pad''\<rparr>, pv_Version = ''1.3.0''\<rparr>],
      in_Vulnerabilities = Slice [],
      in_ProjectInsights = Slice [],
      in_Licenses = Some \<lparr>ll_Licenses = Slice []\<rparr>\<rparr> \<and>
   elems (Slice [\<lparr>pv_Package = Some \<lparr>pk_Ecosystem = 3, pk_Name = ''left-pad''\<rparr>,
                  pv_Version = ''1.3.0''\<rparr>]) \<noteq> []"
  using ex_bare_syncPackage
  by (simp add: ex_bare_def ex_bare_request_def)

text \<open>
  C7, amended. For a package with a manifest and a session (and whose dependencies each
  have a manifest), with the counter positive: \<open>syncPackage\<close> does not panic and
  publishes one request, whatever optional data is absent. In that request the four lists
  are slices that are not \<^verbatim>\<open>nil\<close>; the vulnerability, project insight and license
  lists are empty when the insights are \<^verbatim>\<open>nil\<close>, and each of them is empty when its
  list in the insights is \<^verbatim>\<open>nil\<close>; the dependency list holds one entry per child
  that \<open>GetDependencies\<close> returns, and is empty when \<open>GetDependencies\<close> fails. A
  vulnerability or a project whose optional scalars are all \<^verbatim>\<open>nil\<close> is translated
  with the empty string, the unspecified type and zero in their places.
\<close>

theorem absent_optional_data_degrades:
  assumes "syncPackage env pkg s w = (r, s', w')"
      and "Manifest pkg = Some m"
      and "getSession (sessions s) (Path m) = Inr session"
      and "case GetDependencies env pkg of Inl err \<Rightarrow> True
           | Inr cs \<Rightarrow> (\<forall>c \<in> set cs. Manifest c \<noteq> None)"
      and "0 < wg s"
  shows "\<exists>req deps vulns projs lics.
           r = Returned (map_option (Errorf_w ''failed to publish package insight: '')
                 (PublishPackageInsight_reply env (rpcs w) (toolServiceClient session) req)) \<and>
           rpcs w' = rpcs w @ [PublishPackageInsight (toolServiceClient session) req] \<and>
           rq_PackageVersionInsight req = Some
             \<lparr>in_Dependencies = Slice deps, in_Vulnerabilities = Slice vulns,
              in_ProjectInsights = Slice projs,
              in_Licenses = Some \<lparr>ll_Licenses = Slice lics\<rparr>\<rparr> \<and>
           map Some deps =
             (case GetDependencies env pkg of Inl err \<Rightarrow> [] | Inr cs \<Rightarrow> map (child_entry env) cs) \<and>
           (Insights pkg = None \<longrightarrow> vulns = [] \<and> projs = [] \<and> lics = []) \<and>
           (\<forall>i. Insights pkg = Some i \<longrightarrow>
              (Vulnerabilities i = None \<longrightarrow> vulns = []) \<and>
              (Projects i = None \<longrightarrow> projs = []) \<and>
              (Licenses i = None \<longrightarrow> lics = [])) \<and>
           syncPackage_vulnerability \<lparr>vuln_Id = None, vuln_Summary = None\<rparr> =
             \<lparr>vu_Id = Some \<lparr>vi_Type = VULNERABILITY_IDENTIFIER_TYPE_UNSPECIFIED, vi_Value = ''''\<rparr>,
              vu_Summary = ''''\<rparr> \<and>
           syncPackage_project
             \<lparr>proj_Type = None, proj_Name = None, proj_Link = None,
              proj_Stars = None, proj_Forks = None, proj_Issues = None\<rparr> =
             \<lparr>pi_Project = Some \<lparr>pj_Type = PROJECT_SOURCE_TYPE_UNSPECIFIED, pj_Name = '''', pj_Url = ''''\<rparr>,
              pi_Stars = Some 0, pi_Forks = Some 0, pi_Issues = Some \<lparr>is_Total = 0\<rparr>\<rparr>"
proof -
  from syncPackage_publishes [OF assms(1-4)] obtain req w1 where
    req: "syncPackage_request env session m pkg w = Returned (req, w1)" and
    w': "w' = issue (PublishPackageInsight (toolServiceClient session) req) w1" and
    r: "r = (if wg s < 1 then Panic
             else Returned (map_option (Errorf_w ''failed to publish package insight: '')
                    (PublishPackageInsight_reply env (rpcs w1) (toolServiceClient session) req)))"
    by blast
  from syncPackage_request_insight [OF req] obtain deps where
    ins: "rq_PackageVersionInsight req = Some
           \<lparr>in_Dependencies = Slice deps,
            in_Vulnerabilities = Slice (map syncPackage_vulnerability (vulnerabilities_of pkg)),
            in_ProjectInsights = Slice (map syncPackage_project (projects_of pkg)),
            in_Licenses = Some \<lparr>ll_Licenses = Slice
              (map (\<lambda>license. \<lparr>lm_LicenseId = license, lm_Name = license\<rparr>) (licenses_of pkg))\<rparr>\<rparr>" and
    w1: "rpcs w1 = rpcs w" and
    deps: "case GetDependencies env pkg of
            Inl err \<Rightarrow> deps = [] \<and>
              w1 = logf Warn (''failed to get dependencies for package: '' @ Ecosystem m @ ''/'' @
                     GetName env pkg @ ''/'' @ GetVersion env pkg @ '': '' @ Error err) w
          | Inr cs \<Rightarrow> map Some deps = map (child_entry env) cs \<and> w1 = w"
    by blast
  have a: "r = Returned (map_option (Errorf_w ''failed to publish package insight: '')
                 (PublishPackageInsight_reply env (rpcs w) (toolServiceClient session) req))"
    using r w1 assms(5) by simp
  have b: "rpcs w' = rpcs w @ [PublishPackageInsight (toolServiceClient session) req]"
    using w' w1 by (simp add: issue_def)
  have c: "map Some deps =
      (case GetDependencies env pkg of Inl err \<Rightarrow> [] | Inr cs \<Rightarrow> map (child_entry env) cs)"
    using deps by (cases "GetDependencies env pkg") simp_all
  have d: "Insights pkg = None \<longrightarrow>
      map syncPackage_vulnerability (vulnerabilities_of pkg) = [] \<and>
      map syncPackage_project (projects_of pkg) = [] \<and>
      map (\<lambda>license. \<lparr>lm_LicenseId = license, lm_Name = license\<rparr>) (licenses_of pkg) = []"
    by (simp add: vulnerabilities_of_def projects_of_def licenses_of_def)
  have e: "\<forall>i. Insights pkg = Some i \<longrightarrow>
      (Vulnerabilities i = None \<longrightarrow> map syncPackage_vulnerability (vulnerabilities_of pkg) = []) \<and>
      (Projects i = None \<longrightarrow> map syncPackage_project (projects_of pkg) = []) \<and>
      (Licenses i = None \<longrightarrow>
         map (\<lambda>license. \<lparr>lm_LicenseId = license, lm_Name = license\<rparr>) (licenses_of pkg) = [])"
    by (simp add: vulnerabilities_of_def projects_of_def licenses_of_def)
  have f: "syncPackage_vulnerability \<lparr>vuln_Id = None, vuln_Summary = None\<rparr> =
             \<lparr>vu_Id = Some \<lparr>vi_Type = VULNERABILITY_IDENTIFIER_TYPE_UNSPECIFIED, vi_Value = ''''\<rparr>,
              vu_Summary = ''''\<rparr>"
    by (simp add: syncPackage_vulnerability_def SafelyGetValue_def HasPrefix_def Let_def)
  have g: "syncPackage_project
             \<lparr>proj_Type = None, proj_Name = None, proj_Link = None,
              proj_Stars = None, proj_Forks = None, proj_Issues = None\<rparr> =
             \<lparr>pi_Project = Some \<lparr>pj_Type = PROJECT_SOURCE_TYPE_UNSPECIFIED, pj_Name = '''', pj_Url = ''''\<rparr>,
              pi_Stars = Some 0, pi_Forks = Some 0, pi_Issues = Some \<lparr>is_Total = 0\<rparr>\<rparr>"
    by (simp add: syncPackage_project_def SafelyGetValue_def int64_def Let_def)
  show ?thesis
    apply (rule exI [where x = req])
    apply (rule exI [where x = deps])
    apply (rule exI [where x = "map syncPackage_vulnerability (vulnerabilities_of pkg)"])
    apply (rule exI [where x = "map syncPackage_project (projects_of pkg)"])
    apply (rule exI [where x = "map (\<lambda>license. \<lparr>lm_LicenseId = license, lm_Name = license\<rparr>)
        (licenses_of pkg)"])
    apply (intro conjI)
           apply (rule a)
          apply (rule b)
         apply (rule ins)
        apply (rule c)
       apply (rule d)
      apply (rule e)
     apply (rule f)
    apply (rule g)
    done
qed

theorem absent_optional_data_degrades_witness:
  "syncPackage ex_env ex_child ex_reporter ex_world =
     (Returned None, ex_reporter\<lparr>wg := 0\<rparr>,
      \<lparr>logs = [(Warn, ''failed to get dependencies for package: npm/left-pad/1.3.0: no dependency graph'')],
       rpcs = [PublishPackageInsight 7 ex_child_request]\<rparr>) \<and>
   (\<exists>deps vulns projs lics.
      rq_PackageVersionInsight ex_child_request = Some
        \<lparr>in_Dependencies = Slice deps, in_Vulnerabilities = Slice vulns,
         in_ProjectInsights = Slice projs,
         in_Licenses = Some \<lparr>ll_Licenses = Slice lics\<rparr>\<rparr> \<and>
      deps = [] \<and> vulns = [] \<and> projs = [] \<and> lics = [])"
proof -
  have m: "Manifest ex_child = Some ex_manifest" by (simp add: ex_child_def)
  have d: "GetDependencies ex_env ex_child = Inl (Err ''no dependency graph'')"
    by (simp add: ex_env_def ex_child_def)
  then have ok: "case GetDependencies ex_env ex_child of Inl err \<Rightarrow> True
           | Inr cs \<Rightarrow> (\<forall>c \<in> set cs. Manifest c \<noteq> None)"
    by simp
  have pos: "0 < wg ex_reporter" by (simp add: ex_reporter_def)
  have none: "Insights ex_child = None" by (simp add: ex_child_def)
  from absent_optional_data_degrades [OF ex_child_syncPackage m ex_getSession ok pos]
  obtain req deps vulns projs lics where
    pub: "rpcs \<lparr>logs = [(Warn, ''failed to get dependencies for package: npm/left-pad/1.3.0: no dependency graph'')],
       rpcs = [PublishPackageInsight 7 ex_child_request]\<rparr> = rpcs ex_world @
       [PublishPackageInsight (toolServiceClient \<lparr>sessionId = ''session-1'', toolServiceClient = 7\<rparr>) req]" and
    ins: "rq_PackageVersionInsight req = Some
        \<lparr>in_Dependencies = Slice deps, in_Vulnerabilities = Slice vulns,
         in_ProjectInsights = Slice projs,
         in_Licenses = Some \<lparr>ll_Licenses = Slice lics\<rparr>\<rparr>" and
    deps: "map Some deps =
        (case GetDependencies ex_env ex_child of Inl err \<Rightarrow> []
         | Inr cs \<Rightarrow> map (child_entry ex_env) cs)" and
    empty: "Insights ex_child = None \<longrightarrow> vulns = [] \<and> projs = [] \<and> lics = []"
    by (elim exE conjE) (rule that; assumption)
  from pub have "req = ex_child_request" by (simp add: ex_world_def)
  moreover from deps d have "deps = []" by simp
  ultimately show ?thesis
    using ins empty none ex_child_syncPackage by blast
qed

section \<open>Properties of the worker loop\<close>

lemma syncReportWorker_work_state:
  "syncReportWorker_work env pkg s w = (r, s', w') \<Longrightarrow> s' = s\<lparr>wg := wg s - 1\<rparr>"
  unfolding syncReportWorker_work_def
  by (cases "syncPackage env pkg s w")
     (auto dest: syncPackage_state split: outcome.splits option.splits)

lemma syncReportWorker_Exited:
  "fst (syncReportWorker env sel s w) = Exited \<Longrightarrow> FromDone \<in> set sel"
proof (induction env sel s w rule: syncReportWorker.induct)
  case (1 env s w)
  then show ?case by simp
next
  case (2 env rest s w)
  then show ?case by simp
next
  case (3 env pkg rest s w)
  obtain r s' w' where work: "syncReportWorker_work env pkg s w = (r, s', w')"
    by (cases "syncReportWorker_work env pkg s w") auto
  show ?case
  proof (cases r)
    case (Returned u)
    with 3 work show ?thesis by simp
  next
    case Panic
    with "3.prems" work show ?thesis by simp
  next
    case Blocked
    with "3.prems" work show ?thesis by simp
  qed
qed

lemma syncPackage_lookup_error:
  assumes "Manifest pkg = Some m" "getSession (sessions s) (Path m) = Inl e" "0 < wg s"
  shows "syncPackage env pkg s w =
           (Returned (Some (Errorf_w
              (''failed to get session for package: '' @ Ecosystem m @ ''/'' @
                 GetName env pkg @ ''/'' @ GetVersion env pkg @ '': '') e)),
            s\<lparr>wg := wg s - 1\<rparr>, w)"
  using assms
  by (simp add: syncPackage_def syncPackage_body_def wg_Done_def wg_Add_def Let_def)

lemma syncPackage_publish_error:
  assumes "Manifest pkg = Some m" "getSession (sessions s) (Path m) = Inr session"
    "syncPackage_request env session m pkg w = Returned (req, w1)"
    "PublishPackageInsight_reply env (rpcs w1) (toolServiceClient session) req = Some e"
    "0 < wg s"
  shows "syncPackage env pkg s w =
           (Returned (Some (Errorf_w ''failed to publish package insight: '' e)),
            s\<lparr>wg := wg s - 1\<rparr>,
            issue (PublishPackageInsight (toolServiceClient session) req) w1)"
  using assms
  by (simp add: syncPackage_def syncPackage_body_def wg_Done_def wg_Add_def Let_def)

text \<open>
  C9. A worker leaves its loop only when its \<^verbatim>\<open>select\<close> receives from the channel
  \<^verbatim>\<open>done\<close>. When \<open>syncPackage\<close> returns an error, the worker logs it at error level
  and goes on with what its \<^verbatim>\<open>select\<close> receives next; a failed session lookup and a
  failed publish call are such returned errors.
\<close>

theorem worker_exits_only_on_done:
  "(fst (syncReportWorker env sel s w) = Exited \<longrightarrow> FromDone \<in> set sel) \<and>
   (\<forall>err s' w'. syncPackage env pkg s w = (Returned (Some err), s', w') \<longrightarrow>
      syncReportWorker env (FromWorkQueue pkg # rest) s w =
        syncReportWorker env rest s' (logf ErrorLevel (''failed to sync package: '' @ Error err) w')) \<and>
   (\<forall>m e. Manifest pkg = Some m \<and> getSession (sessions s) (Path m) = Inl e \<and> 0 < wg s \<longrightarrow>
      (\<exists>err. syncPackage env pkg s w = (Returned (Some err), s\<lparr>wg := wg s - 1\<rparr>, w))) \<and>
   (\<forall>m session req w1 e.
      Manifest pkg = Some m \<and> getSession (sessions s) (Path m) = Inr session \<and>
      syncPackage_request env session m pkg w = Returned (req, w1) \<and>
      PublishPackageInsight_reply env (rpcs w1) (toolServiceClient session) req = Some e \<and>
      0 < wg s \<longrightarrow>
      (\<exists>err. syncPackage env pkg s w =
         (Returned (Some err), s\<lparr>wg := wg s - 1\<rparr>,
          issue (PublishPackageInsight (toolServiceClient session) req) w1)))"
proof (intro conjI allI impI)
  assume "fst (syncReportWorker env sel s w) = Exited"
  then show "FromDone \<in> set sel" by (rule syncReportWorker_Exited)
next
  fix err s' w'
  assume "syncPackage env pkg s w = (Returned (Some err), s', w')"
  then show "syncReportWorker env (FromWorkQueue pkg # rest) s w =
      syncReportWorker env rest s' (logf ErrorLevel (''failed to sync package: '' @ Error err) w')"
    by (simp add: syncReportWorker_work_def)
next
  fix m e
  assume "Manifest pkg = Some m \<and> getSession (sessions s) (Path m) = Inl e \<and> 0 < wg s"
  then show "\<exists>err. syncPackage env pkg s w = (Returned (Some err), s\<lparr>wg := wg s - 1\<rparr>, w)"
    using syncPackage_lookup_error by blast
next
  fix m session req w1 e
  assume "Manifest pkg = Some m \<and> getSession (sessions s) (Path m) = Inr session \<and>
      syncPackage_request env session m pkg w = Returned (req, w1) \<and>
      PublishPackageInsight_reply env (rpcs w1) (toolServiceClient session) req = Some e \<and>
      0 < wg s"
  then show "\<exists>err. syncPackage env pkg s w =
         (Returned (Some err), s\<lparr>wg := wg s - 1\<rparr>,
          issue (PublishPackageInsight (toolServiceClient session) req) w1)"
    using syncPackage_publish_error by blast
qed

lemma ex_multi_getSession:
  "getSession (sessions ex_multi_reporter) key = Inl (Err (''session not found for key: '' @ key))"
  by (simp add: getSession_def ex_multi_reporter_def emptyPool_def)

lemma ex_multi_syncPackage:
  "syncPackage ex_env ex_child ex_multi_reporter ex_world =
     (Returned (Some (Wrap
        ''failed to get session for package: npm/left-pad/1.3.0: session not found for key: app/package-lock.json''
        (Err ''session not found for key: app/package-lock.json''))),
      ex_multi_reporter\<lparr>wg := 1\<rparr>, ex_world)"
proof -
  have m: "Manifest ex_child = Some ex_manifest" by (simp add: ex_child_def)
  have pos: "0 < wg ex_multi_reporter" by (simp add: ex_multi_reporter_def)
  have wg: "wg ex_multi_reporter - 1 = 1" by (simp add: ex_multi_reporter_def)
  show ?thesis
    using syncPackage_lookup_error [OF m ex_multi_getSession pos, of ex_env ex_world]
    by (simp add: wg Errorf_w_def ex_env_def ex_child_def ex_manifest_def)
qed

lemma ex_down_syncPackage:
  "syncPackage ex_env_down ex_child ex_reporter ex_world =
     (Returned (Some (Wrap ''failed to publish package insight: unavailable'' (Err ''unavailable''))),
      ex_reporter\<lparr>wg := 0\<rparr>,
      \<lparr>logs = [(Warn, ''failed to get dependencies for package: npm/left-pad/1.3.0: no dependency graph'')],
       rpcs = [PublishPackageInsight 7 ex_child_request]\<rparr>)"
proof -
  have m: "Manifest ex_child = Some ex_manifest" by (simp add: ex_child_def)
  have pos: "0 < wg ex_reporter" by (simp add: ex_reporter_def)
  have wg: "wg ex_reporter - 1 = 0" by (simp add: ex_reporter_def)
  have req: "syncPackage_request ex_env_down \<lparr>sessionId = ''session-1'', toolServiceClient = 7\<rparr>
      ex_manifest ex_child ex_world
     = Returned (ex_child_request,
         logf Warn ''failed to get dependencies for package: npm/left-pad/1.3.0: no dependency graph''
           ex_world)"
    by (simp add: syncPackage_request_def ex_env_down_def ex_env_def ex_child_def ex_manifest_def
        ex_child_request_def SafelyGetValue_def Let_def)
  have reply: "PublishPackageInsight_reply ex_env_down
      (rpcs (logf Warn ''failed to get dependencies for package: npm/left-pad/1.3.0: no dependency graph''
           ex_world))
      (toolServiceClient \<lparr>sessionId = ''session-1'', toolServiceClient = 7\<rparr>) ex_child_request =
      Some (Err ''unavailable'')"
    by (simp add: ex_env_down_def)
  show ?thesis
    using syncPackage_publish_error [OF m ex_getSession req reply pos]
    by (simp add: wg Errorf_w_def issue_def logf_def ex_world_def)
qed

theorem worker_exits_only_on_done_witness:
  "syncReportWorker ex_env [FromWorkQueue ex_child, FromDone] ex_multi_reporter ex_world =
     (Exited, ex_multi_reporter\<lparr>wg := 1\<rparr>,
      \<lparr>logs = [(ErrorLevel,
          ''failed to sync package: failed to get session for package: npm/left-pad/1.3.0: session not found for key: app/package-lock.json'')],
       rpcs = []\<rparr>) \<and>
   syncReportWorker ex_env_down [FromWorkQueue ex_child] ex_reporter ex_world =
     (InLoop, ex_reporter\<lparr>wg := 0\<rparr>,
      \<lparr>logs = [(Warn, ''failed to get dependencies for package: npm/left-pad/1.3.0: no dependency graph''),
               (ErrorLevel, ''failed to sync package: failed to publish package insight: unavailable'')],
       rpcs = [PublishPackageInsight 7 ex_child_request]\<rparr>) \<and>
   FromDone \<in> set [FromWorkQueue ex_child, FromDone]"
proof -
  note t1 = worker_exits_only_on_done
    [of ex_env "[FromWorkQueue ex_child, FromDone]" ex_multi_reporter ex_world ex_child "[FromDone]"]
  note t2 = worker_exits_only_on_done
    [of ex_env_down "[]" ex_reporter ex_world ex_child "[]"]
  from t1 ex_multi_syncPackage have
    "syncReportWorker ex_env (FromWorkQueue ex_child # [FromDone]) ex_multi_reporter ex_world =
       syncReportWorker ex_env [FromDone] (ex_multi_reporter\<lparr>wg := 1\<rparr>)
         (logf ErrorLevel (''failed to sync package: '' @ Error (Wrap
        ''failed to get session for package: npm/left-pad/1.3.0: session not found for key: app/package-lock.json''
        (Err ''session not found for key: app/package-lock.json''))) ex_world)"
    by blast
  then have a: "syncReportWorker ex_env [FromWorkQueue ex_child, FromDone] ex_multi_reporter ex_world =
     (Exited, ex_multi_reporter\<lparr>wg := 1\<rparr>,
      \<lparr>logs = [(ErrorLevel,
          ''failed to sync package: failed to get session for package: npm/left-pad/1.3.0: session not found for key: app/package-lock.json'')],
       rpcs = []\<rparr>)"
    by (simp add: logf_def ex_world_def)
  from t2 ex_down_syncPackage have
    "syncReportWorker ex_env_down (FromWorkQueue ex_child # []) ex_reporter ex_world =
       syncReportWorker ex_env_down [] (ex_reporter\<lparr>wg := 0\<rparr>)
         (logf ErrorLevel (''failed to sync package: '' @ Error
            (Wrap ''failed to publish package insight: unavailable'' (Err ''unavailable'')))
          \<lparr>logs = [(Warn, ''failed to get dependencies for package: npm/left-pad/1.3.0: no dependency graph'')],
           rpcs = [PublishPackageInsight 7 ex_child_request]\<rparr>)"
    by blast
  then have b: "syncReportWorker ex_env_down [FromWorkQueue ex_child] ex_reporter ex_world =
     (InLoop, ex_reporter\<lparr>wg := 0\<rparr>,
      \<lparr>logs = [(Warn, ''failed to get dependencies for package: npm/left-pad/1.3.0: no dependency graph''),
               (ErrorLevel, ''failed to sync package: failed to publish package insight: unavailable'')],
       rpcs = [PublishPackageInsight 7 ex_child_request]\<rparr>)"
    by (simp add: logf_def)
  from a t1 have c: "FromDone \<in> set [FromWorkQueue ex_child, FromDone]"
    by simp
  from a b c show ?thesis by blast
qed

section \<open>Properties of the running system\<close>

lemma Finish_cases:
  "Finish env keys s w = (r, s', w') \<Longrightarrow>
     (r = Blocked \<and> wg s \<noteq> 0 \<and> s' = s \<and> w' = w) \<or>
     (r = Panic \<and> wg s = 0 \<and> s' = s \<and> w' = w) \<or>
     (\<exists>e. r = Returned e \<and> wg s = 0 \<and> s' = s\<lparr>done_closed := True\<rparr>)"
  by (auto simp: Finish_def Let_def split: if_splits prod.splits)

lemma added_append: "added (xs @ ys) = added xs @ added ys"
  by (induction xs rule: added.induct) simp_all

lemma synced_append: "synced (xs @ ys) = synced xs @ synced ys"
  by (induction xs rule: synced.induct) simp_all

lemma busy_update:
  "i < length ws \<Longrightarrow>
   mset (busy (ws[i := v])) + mset (busy [ws ! i]) = mset (busy ws) + mset (busy [v])"
proof (induction ws arbitrary: i)
  case Nil
  then show ?case by simp
next
  case (Cons a ws)
  show ?case
  proof (cases i)
    case 0
    then show ?thesis by (cases a; cases v) simp_all
  next
    case (Suc j)
    with Cons.prems have "j < length ws" by simp
    from Cons.IH [OF this] Suc show ?thesis
      by (cases a) simp_all
  qed
qed

lemma exec_append:
  "exec env (xs @ ys) sys =
     (case exec env xs sys of None \<Rightarrow> None | Some sys' \<Rightarrow> exec env ys sys')"
  by (induction xs arbitrary: sys) (simp_all split: option.splits)

lemma step_balanced:
  assumes "step env e sys = Some sys'" and "balanced tr sys"
  shows "balanced (tr @ [e]) sys'"
proof (cases e)
  case (EvAdd pkg)
  from assms(2) have "0 \<le> wg (sys_reporter sys)" by (simp add: balanced_def)
  with assms EvAdd show ?thesis
    by (auto simp: balanced_def pending_def added_append synced_append queuePackage_Add_def
        wg_Add_def Let_def split: if_splits)
next
  case (EvSend pkg)
  have len: "int (length xs) = int (length (remove1 pkg xs)) + 1" if "pkg \<in> set xs" for xs
    using that by (induction xs) auto
  from assms EvSend have mem: "pkg \<in> set (senders sys)" and
    sys': "sys' = sys\<lparr>sys_reporter := (sys_reporter sys)\<lparr>workQueue := workQueue (sys_reporter sys) @ [pkg]\<rparr>,
                     senders := remove1 pkg (senders sys)\<rparr>"
    by (auto simp: queuePackage_send_def split: if_splits)
  from mem have "mset (remove1 pkg (senders sys)) + {#pkg#} = mset (senders sys)"
    by simp
  moreover have "size (mset (senders sys) - {#pkg#}) = length (remove1 pkg (senders sys))"
    by (metis mset_remove1 size_mset)
  ultimately show ?thesis
    using assms(2) sys' EvSend len [OF mem]
    by (simp add: balanced_def pending_def added_append synced_append)
next
  case (EvReceive i)
  with assms obtain pkg rest where
    q: "workQueue (sys_reporter sys) = pkg # rest" and i: "i < length (workers sys)"
    and idle: "workers sys ! i = Idle"
    and sys': "sys' = sys\<lparr>sys_reporter := (sys_reporter sys)\<lparr>workQueue := rest\<rparr>,
                           workers := (workers sys)[i := Busy pkg]\<rparr>"
    by (auto split: if_splits list.splits)
  from busy_update [OF i, of "Busy pkg"] idle
  have "mset (busy ((workers sys)[i := Busy pkg])) = mset (busy (workers sys)) + {#pkg#}"
    by simp
  with assms(2) q sys' EvReceive show ?thesis
    by (simp add: balanced_def pending_def added_append synced_append)
next
  case (EvSync i pkg)
  with assms have i: "i < length (workers sys)" and b: "workers sys ! i = Busy pkg"
    by (auto split: if_splits)
  obtain r s' w' where work:
    "syncReportWorker_work env pkg (sys_reporter sys) (sys_world sys) = (r, s', w')"
    by (cases "syncReportWorker_work env pkg (sys_reporter sys) (sys_world sys)") auto
  from syncReportWorker_work_state [OF work]
  have s': "s' = (sys_reporter sys)\<lparr>wg := wg (sys_reporter sys) - 1\<rparr>" .
  from busy_update [OF i, of Idle] b
  have idle: "mset (busy ((workers sys)[i := Idle])) + {#pkg#} = mset (busy (workers sys))"
    by simp
  from busy_update [OF i, of Gone] b
  have gone: "mset (busy ((workers sys)[i := Gone])) + {#pkg#} = mset (busy (workers sys))"
    by simp
  from assms(1) EvSync i b work
  have "workers sys' = (workers sys)[i := Idle] \<or> workers sys' = (workers sys)[i := Gone]"
    and "senders sys' = senders sys" and "sys_reporter sys' = s'"
    by (auto split: if_splits outcome.splits)
  moreover from arg_cong [OF idle, of size]
  have "int (length (busy ((workers sys)[i := Idle]))) + 1 = int (length (busy (workers sys)))"
    by simp
  moreover from arg_cong [OF gone, of size]
  have "int (length (busy ((workers sys)[i := Gone]))) + 1 = int (length (busy (workers sys)))"
    by simp
  ultimately show ?thesis
    using assms(2) s' idle [symmetric] gone [symmetric] EvSync
    by (auto simp: balanced_def pending_def added_append synced_append)
next
  case (EvExit i)
  with assms have i: "i < length (workers sys)" and b: "workers sys ! i = Idle"
    and sys': "sys' = sys\<lparr>workers := (workers sys)[i := Gone]\<rparr>"
    by (auto split: if_splits)
  from busy_update [OF i, of Gone] b
  have "mset (busy ((workers sys)[i := Gone])) = mset (busy (workers sys))"
    by simp
  with assms(2) sys' EvExit show ?thesis
    by (simp add: balanced_def pending_def added_append synced_append)
next
  case (EvFinish keys)
  obtain r s' w' where f: "Finish env keys (sys_reporter sys) (sys_world sys) = (r, s', w')"
    by (cases "Finish env keys (sys_reporter sys) (sys_world sys)") auto
  from Finish_cases [OF f] assms EvFinish f show ?thesis
    by (auto simp: balanced_def pending_def added_append synced_append
        split: if_splits outcome.splits)
qed

lemma exec_balanced:
  "exec env tr sys = Some sys' \<Longrightarrow> balanced pre sys \<Longrightarrow> balanced (pre @ tr) sys'"
proof (induction tr arbitrary: pre sys)
  case Nil
  then show ?case by simp
next
  case (Cons e tr)
  from Cons.prems(1) obtain mid where
    mid: "step env e sys = Some mid" "exec env tr mid = Some sys'"
    by (auto split: option.splits)
  from step_balanced [OF mid(1) Cons.prems(2)] have "balanced (pre @ [e]) mid" .
  from Cons.IH [OF mid(2) this] show ?case by simp
qed

lemma step_EvFinish_wg:
  "step env (EvFinish keys) sys = Some sys' \<Longrightarrow> wg (sys_reporter sys) = 0"
  by (auto simp: Finish_def split: if_splits prod.splits outcome.splits)

lemma busy_replicate_Idle: "busy (replicate n Idle) = []"
  by (induction n) simp_all

lemma NewSyncReporter_initial:
  assumes "NewSyncReporter env cfg w = (Inr (self, ws), w0)"
  shows "wg self = 0 \<and> workQueue self = [] \<and> \<not> done_closed self \<and> busy ws = [] \<and>
         config self = cfg \<and>
         (EnableMultiProjectSync cfg \<longrightarrow> sessions self = emptyPool \<and> rpcs w0 = rpcs w)"
  using assms
  by (auto simp: NewSyncReporter_def Let_def startWorkers_def busy_replicate_Idle logf_def
      split: sum.splits prod.splits if_splits)

lemma boot_balanced:
  assumes "NewSyncReporter env cfg w = (Inr start, w0)"
  shows "balanced [] (boot start w0)"
proof -
  obtain self ws where "start = (self, ws)" by (cases start)
  with NewSyncReporter_initial assms show ?thesis
    by (fastforce simp: balanced_def pending_def boot_def)
qed

text \<open>
  C4. In every run of the system from a reporter that \<open>NewSyncReporter\<close> returned:
  the packages whose counter increment the run contains are, counted with
  multiplicity, the packages the workers have run \<open>syncPackage\<close> on together with
  those waiting to be sent, those in the queue and those a worker holds; the counter is
  the number of increments minus the number of \<open>syncPackage\<close> calls and is never
  negative; where the run contains the step of \<open>Finish\<close>, the increments before it are
  matched one to one by \<open>syncPackage\<close> calls before it. \<open>syncPackage\<close> decrements the
  counter by one whatever its outcome, and \<open>Finish\<close> blocks, changing nothing, while
  the counter is not zero.
\<close>

theorem pending_counter_balanced:
  assumes "NewSyncReporter env cfg w = (Inr start, w0)"
      and "exec env tr (boot start w0) = Some sys"
  shows "mset (added tr) =
           mset (synced tr) + mset (senders sys) + mset (workQueue (sys_reporter sys)) +
             mset (busy (workers sys)) \<and>
         wg (sys_reporter sys) = int (length (added tr)) - int (length (synced tr)) \<and>
         0 \<le> wg (sys_reporter sys) \<and>
         (\<forall>pre keys post. tr = pre @ EvFinish keys # post \<longrightarrow>
            mset (added pre) = mset (synced pre) \<and> length (added pre) = length (synced pre)) \<and>
         (\<forall>pkg s w1. wg (fst (snd (syncPackage env pkg s w1))) = wg s - 1) \<and>
         (\<forall>keys s w1. wg s \<noteq> 0 \<longrightarrow> Finish env keys s w1 = (Blocked, s, w1))"
proof -
  from exec_balanced [OF assms(2) boot_balanced [OF assms(1)]]
  have bal: "balanced tr sys" by simp
  then have a: "mset (added tr) =
           mset (synced tr) + mset (senders sys) + mset (workQueue (sys_reporter sys)) +
             mset (busy (workers sys))"
    by (simp add: balanced_def pending_def add.assoc)
  from arg_cong [OF a, of size] bal
  have b: "wg (sys_reporter sys) = int (length (added tr)) - int (length (synced tr))"
    by (simp add: balanced_def pending_def)
  from bal have c: "0 \<le> wg (sys_reporter sys)"
    by (simp add: balanced_def)
  have d: "\<forall>pre keys post. tr = pre @ EvFinish keys # post \<longrightarrow>
            mset (added pre) = mset (synced pre) \<and> length (added pre) = length (synced pre)"
  proof (intro allI impI)
    fix pre keys post
    assume tr: "tr = pre @ EvFinish keys # post"
    with assms(2) obtain mid mid' where
      mid: "exec env pre (boot start w0) = Some mid" and
      fin: "step env (EvFinish keys) mid = Some mid'"
      by (auto simp: exec_append split: option.splits)
    from exec_balanced [OF mid boot_balanced [OF assms(1)]]
    have "balanced pre mid" by simp
    moreover from step_EvFinish_wg [OF fin] have "wg (sys_reporter mid) = 0" .
    ultimately have eq: "mset (added pre) = mset (synced pre)"
      by (simp add: balanced_def)
    from eq mset_eq_length [OF eq]
    show "mset (added pre) = mset (synced pre) \<and> length (added pre) = length (synced pre)"
      by simp
  qed
  have e: "\<forall>pkg s w1. wg (fst (snd (syncPackage env pkg s w1))) = wg s - 1"
  proof (intro allI)
    fix pkg s w1
    obtain r s' w' where run: "syncPackage env pkg s w1 = (r, s', w')"
      by (cases "syncPackage env pkg s w1") auto
    from syncPackage_state [OF run] run
    show "wg (fst (snd (syncPackage env pkg s w1))) = wg s - 1" by simp
  qed
  have f: "\<forall>keys s w1. wg s \<noteq> 0 \<longrightarrow> Finish env keys s w1 = (Blocked, s, w1)"
    by (simp add: Finish_def)
  from a b c d e f show ?thesis by blast
qed

lemma forEach_empty:
  "syncSessions s = Map.empty \<Longrightarrow> forEach s keys f w = (None, w)"
  by (induction keys) simp_all

lemma syncPackage_empty_pool:
  assumes "syncSessions (sessions s) = Map.empty"
  shows "fst (syncPackage env pkg s w) \<noteq> Returned None \<and>
         rpcs (snd (snd (syncPackage env pkg s w))) = rpcs w"
proof -
  obtain r s' w' where run: "syncPackage env pkg s w = (r, s', w')"
    by (cases "syncPackage env pkg s w") auto
  from assms have "getSession (sessions s) key = Inl (Err (''session not found for key: '' @ key))"
    for key
    by (simp add: getSession_def)
  with syncPackage_cases [OF run] run show ?thesis
    by (auto split: if_splits)
qed

lemma step_sessions:
  assumes "step env e sys = Some sys'"
  shows "sessions (sys_reporter sys') = sessions (sys_reporter sys)"
proof (cases e)
  case (EvSync i pkg)
  obtain r s' w' where work:
    "syncReportWorker_work env pkg (sys_reporter sys) (sys_world sys) = (r, s', w')"
    by (cases "syncReportWorker_work env pkg (sys_reporter sys) (sys_world sys)") auto
  from syncReportWorker_work_state [OF work] assms EvSync work show ?thesis
    by (auto split: if_splits outcome.splits)
next
  case (EvFinish keys)
  obtain r s' w' where f: "Finish env keys (sys_reporter sys) (sys_world sys) = (r, s', w')"
    by (cases "Finish env keys (sys_reporter sys) (sys_world sys)") auto
  from Finish_cases [OF f] assms EvFinish f show ?thesis
    by (auto split: if_splits outcome.splits)
qed (use assms in \<open>auto simp: queuePackage_Add_def wg_Add_def Let_def queuePackage_send_def
      split: if_splits list.splits\<close>)

lemma step_rpcs_empty_pool:
  assumes "step env e sys = Some sys'"
      and "syncSessions (sessions (sys_reporter sys)) = Map.empty"
  shows "rpcs (sys_world sys') = rpcs (sys_world sys)"
proof (cases e)
  case (EvSync i pkg)
  obtain r s' w' where run:
    "syncPackage env pkg (sys_reporter sys) (sys_world sys) = (r, s', w')"
    by (cases "syncPackage env pkg (sys_reporter sys) (sys_world sys)") auto
  from syncPackage_empty_pool [OF assms(2), of env pkg "sys_world sys"] run
  have "rpcs w' = rpcs (sys_world sys)" by simp
  with assms(1) EvSync run show ?thesis
    by (auto simp: syncReportWorker_work_def logf_def split: if_splits outcome.splits option.splits)
next
  case (EvFinish keys)
  with assms show ?thesis
    by (auto simp: Finish_def forEach_empty split: if_splits)
qed (use assms in \<open>auto simp: queuePackage_Add_def wg_Add_def Let_def queuePackage_send_def
      split: if_splits list.splits\<close>)

lemma exec_empty_pool:
  "exec env tr sys = Some sys' \<Longrightarrow> syncSessions (sessions (sys_reporter sys)) = Map.empty \<Longrightarrow>
   syncSessions (sessions (sys_reporter sys')) = Map.empty \<and>
   rpcs (sys_world sys') = rpcs (sys_world sys)"
proof (induction tr arbitrary: sys)
  case Nil
  then show ?case by simp
next
  case (Cons e tr)
  from Cons.prems(1) obtain mid where
    mid: "step env e sys = Some mid" "exec env tr mid = Some sys'"
    by (auto split: option.splits)
  from step_sessions [OF mid(1)] Cons.prems(2)
  have "syncSessions (sessions (sys_reporter mid)) = Map.empty" by simp
  from Cons.IH [OF mid(2) this] step_rpcs_empty_pool [OF mid(1) Cons.prems(2)]
  show ?case by simp
qed

text \<open>
  C2. When \<open>NewSyncReporter\<close> returns a reporter for a configuration with
  \<open>EnableMultiProjectSync\<close> set, the session pool is empty, and it stays empty in
  every run of the system: every \<open>getSession\<close> fails with the session-not-found error,
  \<open>syncPackage\<close> never succeeds and issues no remote call, and the remote calls of
  the world are still those issued before \<open>NewSyncReporter\<close> was called.
\<close>

theorem multi_project_sync_drops_every_record:
  assumes "NewSyncReporter env cfg w = (Inr start, w0)"
      and "EnableMultiProjectSync cfg"
      and "exec env tr (boot start w0) = Some sys"
  shows "syncSessions (sessions (sys_reporter sys)) = Map.empty \<and>
         (\<forall>key. getSession (sessions (sys_reporter sys)) key =
                  Inl (Err (''session not found for key: '' @ key))) \<and>
         (\<forall>pkg. fst (syncPackage env pkg (sys_reporter sys) (sys_world sys)) \<noteq> Returned None \<and>
                 rpcs (snd (snd (syncPackage env pkg (sys_reporter sys) (sys_world sys)))) =
                   rpcs (sys_world sys)) \<and>
         rpcs (sys_world sys) = rpcs w"
proof -
  obtain self ws where start: "start = (self, ws)" by (cases start)
  from NewSyncReporter_initial assms(1,2) start
  have init: "sessions self = emptyPool" "rpcs w0 = rpcs w" by blast+
  then have "syncSessions (sessions (sys_reporter (boot start w0))) = Map.empty"
    by (simp add: boot_def start emptyPool_def)
  from exec_empty_pool [OF assms(3) this] init start
  have empty: "syncSessions (sessions (sys_reporter sys)) = Map.empty"
    and rp: "rpcs (sys_world sys) = rpcs w"
    by (simp_all add: boot_def)
  from empty have "\<forall>key. getSession (sessions (sys_reporter sys)) key =
                  Inl (Err (''session not found for key: '' @ key))"
    by (simp add: getSession_def)
  with empty rp syncPackage_empty_pool [OF empty] show ?thesis
    by blast
qed

lemma ex_NewSyncReporter:
  "NewSyncReporter ex_env ex_config ex_world = (Inr (ex_reporter\<lparr>wg := 0\<rparr>, [Idle, Idle]), ex_boot_world)"
  by (simp add: NewSyncReporter_def ex_env_def ex_config_def ex_world_def ex_reporter_def
      ex_boot_world_def startWorkers_def logf_def issue_def Let_def
      syncReporterDefaultWorkerCount_def numeral_2_eq_2)

lemma ex_child_request_any:
  "syncPackage_request ex_env \<lparr>sessionId = ''session-1'', toolServiceClient = 7\<rparr> ex_manifest ex_child w
     = Returned (ex_child_request,
         logf Warn ''failed to get dependencies for package: npm/left-pad/1.3.0: no dependency graph'' w)"
  by (simp add: syncPackage_request_def ex_env_def ex_child_def ex_manifest_def
      ex_child_request_def SafelyGetValue_def Let_def)

lemma ex_child_syncPackage_any:
  assumes "sessions s = sessions ex_reporter" and "0 < wg s"
  shows "syncPackage ex_env ex_child s w =
     (Returned None, s\<lparr>wg := wg s - 1\<rparr>,
      issue (PublishPackageInsight 7 ex_child_request)
        (logf Warn ''failed to get dependencies for package: npm/left-pad/1.3.0: no dependency graph'' w))"
proof -
  have m: "Manifest ex_child = Some ex_manifest" by (simp add: ex_child_def)
  from assms(1) have g: "getSession (sessions s) (Path ex_manifest) =
      Inr \<lparr>sessionId = ''session-1'', toolServiceClient = 7\<rparr>"
    by (simp add: ex_getSession)
  have "syncPackage_body ex_env ex_child s w =
      (Returned None, issue (PublishPackageInsight 7 ex_child_request)
        (logf Warn ''failed to get dependencies for package: npm/left-pad/1.3.0: no dependency graph'' w))"
    by (simp add: syncPackage_body_def m g ex_child_request_any ex_publish_reply Let_def)
  with assms(2) show ?thesis
    by (simp add: syncPackage_def wg_Done_def wg_Add_def Let_def)
qed

lemma ex_AddManifest: "AddManifest ex_env ex_manifest = [EvAdd ex_child, EvSend ex_child]"
  by (simp add: AddManifest_def ex_env_def)

lemma ex_exec:
  "exec ex_env ex_run (boot (ex_reporter\<lparr>wg := 0\<rparr>, [Idle, Idle]) ex_boot_world) = Some ex_final"
proof -
  have order: "range_order (sessions ex_reporter) [''*'']"
    by (simp add: range_order_def ex_reporter_def addPrimarySession_def emptyPool_def)
  have star: "syncSessions (sessions ex_reporter) ''*'' =
      Some \<lparr>sessionId = ''session-1'', toolServiceClient = 7\<rparr>"
    by (simp add: ex_reporter_def addPrimarySession_def emptyPool_def)
  have reply: "CompleteToolSession_reply ex_env h 7
      \<lparr>cr_ToolSession = Some \<lparr>ToolSessionId = ''session-1''\<rparr>, cr_Status = STATUS_SUCCESS\<rparr> = None" for h
    by (simp add: ex_env_def)
  have q: "workQueue ex_reporter = []" "\<not> done_closed ex_reporter"
    by (simp_all add: ex_reporter_def)
  show ?thesis
    by (simp add: ex_run_def ex_AddManifest boot_def queuePackage_Add_def wg_Add_def
        queuePackage_send_def
        workQueue_capacity_def syncReportWorker_work_def ex_child_syncPackage_any Let_def q
        order Finish_def Finish_visitor_def star reply issue_def logf_def ex_final_def)
qed

theorem pending_counter_balanced_witness:
  "exec ex_env ex_run (boot (ex_reporter\<lparr>wg := 0\<rparr>, [Idle, Idle]) ex_boot_world) = Some ex_final \<and>
   mset (added ex_run) =
     mset (synced ex_run) + mset (senders ex_final) + mset (workQueue (sys_reporter ex_final)) +
       mset (busy (workers ex_final)) \<and>
   added ex_run = [ex_child] \<and> synced ex_run = [ex_child] \<and>
   wg (sys_reporter ex_final) = 0 \<and>
   wg (fst (snd (syncPackage ex_env ex_pkg ex_reporter ex_world))) = 0 \<and>
   Finish ex_env [''*''] ex_reporter ex_world = (Blocked, ex_reporter, ex_world)"
proof -
  note t = pending_counter_balanced [OF ex_NewSyncReporter ex_exec]
  have a: "added ex_run = [ex_child]" "synced ex_run = [ex_child]"
    by (simp_all add: ex_run_def ex_AddManifest)
  have one: "wg ex_reporter = 1" by (simp add: ex_reporter_def)
  from t a have "wg (sys_reporter ex_final) = 0" by simp
  moreover from t one have "wg (fst (snd (syncPackage ex_env ex_pkg ex_reporter ex_world))) = 0"
    by simp
  moreover from t one have "Finish ex_env [''*''] ex_reporter ex_world = (Blocked, ex_reporter, ex_world)"
    by simp
  ultimately show ?thesis
    using t a ex_exec by blast
qed

lemma ex_multi_NewSyncReporter:
  "NewSyncReporter ex_env ex_config_multi ex_world = (Inr (ex_multi_start, [Idle, Idle]), ex_multi_world)"
  by (simp add: NewSyncReporter_def ex_env_def ex_config_multi_def ex_config_def ex_world_def
      ex_multi_start_def ex_multi_world_def startWorkers_def logf_def issue_def Let_def
      syncReporterDefaultWorkerCount_def numeral_2_eq_2)

lemma ex_multi_syncPackage_any:
  assumes "sessions s = emptyPool" and "0 < wg s"
  shows "syncPackage ex_env ex_child s w =
     (Returned (Some (Wrap
        ''failed to get session for package: npm/left-pad/1.3.0: session not found for key: app/package-lock.json''
        (Err ''session not found for key: app/package-lock.json''))),
      s\<lparr>wg := wg s - 1\<rparr>, w)"
proof -
  have m: "Manifest ex_child = Some ex_manifest" by (simp add: ex_child_def)
  from assms(1) have g: "getSession (sessions s) (Path ex_manifest) =
      Inl (Err (''session not found for key: '' @ Path ex_manifest))"
    by (simp add: getSession_def emptyPool_def)
  show ?thesis
    using syncPackage_lookup_error [OF m g assms(2), of ex_env w]
    by (simp add: Errorf_w_def ex_env_def ex_child_def ex_manifest_def)
qed

lemma ex_multi_exec:
  "exec ex_env ex_multi_run (boot (ex_multi_start, [Idle, Idle]) ex_multi_world) = Some ex_multi_final"
proof -
  have q: "workQueue ex_multi_start = []" "wg ex_multi_start = 0" "sessions ex_multi_start = emptyPool"
    by (simp_all add: ex_multi_start_def)
  show ?thesis
    by (simp add: ex_multi_run_def boot_def queuePackage_Add_def wg_Add_def queuePackage_send_def
        workQueue_capacity_def syncReportWorker_work_def ex_multi_syncPackage_any Let_def q
        logf_def ex_multi_final_def ex_multi_world_def ex_multi_start_def)
qed

theorem multi_project_sync_drops_every_record_witness:
  "exec ex_env ex_multi_run (boot (ex_multi_start, [Idle, Idle]) ex_multi_world) = Some ex_multi_final \<and>
   syncSessions (sessions (sys_reporter ex_multi_final)) = Map.empty \<and>
   getSession (sessions (sys_reporter ex_multi_final)) ''app/package-lock.json'' =
     Inl (Err ''session not found for key: app/package-lock.json'') \<and>
   fst (syncPackage ex_env ex_pkg (sys_reporter ex_multi_final) (sys_world ex_multi_final))
     \<noteq> Returned None \<and>
   rpcs (sys_world ex_multi_final) = []"
proof -
  have multi: "EnableMultiProjectSync ex_config_multi"
    by (simp add: ex_config_multi_def)
  note t = multi_project_sync_drops_every_record [OF ex_multi_NewSyncReporter multi ex_multi_exec]
  from t have "getSession (sessions (sys_reporter ex_multi_final)) ''app/package-lock.json'' =
     Inl (Err (''session not found for key: '' @ ''app/package-lock.json''))"
    by blast
  then have "getSession (sessions (sys_reporter ex_multi_final)) ''app/package-lock.json'' =
     Inl (Err ''session not found for key: app/package-lock.json'')"
    by simp
  moreover from t have "rpcs (sys_world ex_multi_final) = []"
    by (simp add: ex_world_def)
  ultimately show ?thesis
    using t ex_multi_exec by blast
qed

section \<open>Properties of Finish\<close>

lemma completion_calls_Nil: "completion_calls s [] = []"
  by (simp add: completion_calls_def)

lemma completion_calls_Cons_None:
  "syncSessions s key = None \<Longrightarrow> completion_calls s (key # keys) = completion_calls s keys"
  by (simp add: completion_calls_def)

lemma completion_calls_Cons_Some:
  "syncSessions s key = Some session \<Longrightarrow>
   completion_calls s (key # keys) = completion_call session # completion_calls s keys"
  by (simp add: completion_calls_def)

lemma Finish_visitor_rpcs:
  "Finish_visitor env key session w = (r, w') \<Longrightarrow>
   rpcs w' = rpcs w @ [completion_call session] \<and>
   r = CompleteToolSession_reply env (rpcs w) (toolServiceClient session)
         \<lparr>cr_ToolSession = Some \<lparr>ToolSessionId = sessionId session\<rparr>, cr_Status = STATUS_SUCCESS\<rparr>"
  by (auto simp: Finish_visitor_def Let_def issue_def logf_def completion_call_def)

lemma forEach_Finish_visitor_None:
  "forEach s keys (Finish_visitor env) w = (None, w') \<Longrightarrow>
   rpcs w' = rpcs w @ completion_calls s keys \<and> completions_ok env s (rpcs w) keys"
proof (induction keys arbitrary: w)
  case Nil
  then show ?case by (simp add: completion_calls_Nil)
next
  case (Cons key keys)
  show ?case
  proof (cases "syncSessions s key")
    case None
    with Cons show ?thesis by (simp add: completion_calls_Cons_None)
  next
    case (Some session)
    obtain r w1 where v: "Finish_visitor env key session w = (r, w1)"
      by (cases "Finish_visitor env key session w") auto
    with Cons.prems Some have r: "r = None" and rest: "forEach s keys (Finish_visitor env) w1 = (None, w')"
      by (cases r; simp)+
    from Cons.IH [OF rest] Finish_visitor_rpcs [OF v] Some r show ?thesis
      by (simp add: completion_calls_Cons_Some)
  qed
qed

lemma forEach_Finish_visitor_Some:
  "forEach s keys (Finish_visitor env) w = (Some err, w') \<Longrightarrow>
   \<exists>pre key session post.
     keys = pre @ key # post \<and> syncSessions s key = Some session \<and>
     rpcs w' = rpcs w @ completion_calls s pre @ [completion_call session] \<and>
     completions_ok env s (rpcs w) pre \<and>
     CompleteToolSession_reply env (rpcs w @ completion_calls s pre) (toolServiceClient session)
       \<lparr>cr_ToolSession = Some \<lparr>ToolSessionId = sessionId session\<rparr>, cr_Status = STATUS_SUCCESS\<rparr>
       = Some err"
proof (induction keys arbitrary: w)
  case Nil
  then show ?case by simp
next
  case (Cons k keys)
  show ?case
  proof (cases "syncSessions s k")
    case None
    with Cons.prems have "forEach s keys (Finish_visitor env) w = (Some err, w')" by simp
    from Cons.IH [OF this] obtain pre key session post where
      h: "keys = pre @ key # post" "syncSessions s key = Some session"
         "rpcs w' = rpcs w @ completion_calls s pre @ [completion_call session]"
         "completions_ok env s (rpcs w) pre"
         "CompleteToolSession_reply env (rpcs w @ completion_calls s pre) (toolServiceClient session)
            \<lparr>cr_ToolSession = Some \<lparr>ToolSessionId = sessionId session\<rparr>, cr_Status = STATUS_SUCCESS\<rparr>
            = Some err"
      by blast
    from h None have
      "k # keys = (k # pre) @ key # post \<and> syncSessions s key = Some session \<and>
       rpcs w' = rpcs w @ completion_calls s (k # pre) @ [completion_call session] \<and>
       completions_ok env s (rpcs w) (k # pre) \<and>
       CompleteToolSession_reply env (rpcs w @ completion_calls s (k # pre)) (toolServiceClient session)
         \<lparr>cr_ToolSession = Some \<lparr>ToolSessionId = sessionId session\<rparr>, cr_Status = STATUS_SUCCESS\<rparr>
         = Some err"
      by (simp add: completion_calls_Cons_None)
    then show ?thesis by blast
  next
    case (Some sk)
    obtain r w1 where v: "Finish_visitor env k sk w = (r, w1)"
      by (cases "Finish_visitor env k sk w") auto
    note vr = Finish_visitor_rpcs [OF v]
    show ?thesis
    proof (cases r)
      case None
      with Cons.prems Some v have "forEach s keys (Finish_visitor env) w1 = (Some err, w')"
        by simp
      from Cons.IH [OF this] obtain pre key session post where
        h: "keys = pre @ key # post" "syncSessions s key = Some session"
           "rpcs w' = rpcs w1 @ completion_calls s pre @ [completion_call session]"
           "completions_ok env s (rpcs w1) pre"
           "CompleteToolSession_reply env (rpcs w1 @ completion_calls s pre) (toolServiceClient session)
              \<lparr>cr_ToolSession = Some \<lparr>ToolSessionId = sessionId session\<rparr>, cr_Status = STATUS_SUCCESS\<rparr>
              = Some err"
        by blast
      from h vr Some None have
        "k # keys = (k # pre) @ key # post \<and> syncSessions s key = Some session \<and>
         rpcs w' = rpcs w @ completion_calls s (k # pre) @ [completion_call session] \<and>
         completions_ok env s (rpcs w) (k # pre) \<and>
         CompleteToolSession_reply env (rpcs w @ completion_calls s (k # pre)) (toolServiceClient session)
           \<lparr>cr_ToolSession = Some \<lparr>ToolSessionId = sessionId session\<rparr>, cr_Status = STATUS_SUCCESS\<rparr>
           = Some err"
        by (simp add: completion_calls_Cons_Some)
      then show ?thesis by blast
    next
      case (Some e)
      with Cons.prems \<open>syncSessions s k = Some sk\<close> v have "e = err" "w' = w1"
        by simp_all
      with vr Some \<open>syncSessions s k = Some sk\<close> have
        "k # keys = [] @ k # keys \<and> syncSessions s k = Some sk \<and>
         rpcs w' = rpcs w @ completion_calls s [] @ [completion_call sk] \<and>
         completions_ok env s (rpcs w) [] \<and>
         CompleteToolSession_reply env (rpcs w @ completion_calls s []) (toolServiceClient sk)
           \<lparr>cr_ToolSession = Some \<lparr>ToolSessionId = sessionId sk\<rparr>, cr_Status = STATUS_SUCCESS\<rparr>
           = Some err"
        by (simp add: completion_calls_Nil)
      then show ?thesis by blast
    qed
  qed
qed

lemma completion_calls_member:
  "key \<in> set keys \<Longrightarrow> syncSessions s key = Some session \<Longrightarrow>
   completion_call session \<in> set (completion_calls s keys)"
  by (auto simp: completion_calls_def intro!: bexI [where x = key])

lemma ex_two_sessions:
  "syncSessions (sessions ex_two_reporter) ''a.lock'' =
     Some \<lparr>sessionId = ''session-a'', toolServiceClient = 7\<rparr>"
  "syncSessions (sessions ex_two_reporter) ''b.lock'' =
     Some \<lparr>sessionId = ''session-b'', toolServiceClient = 7\<rparr>"
  by (simp_all add: ex_two_reporter_def addKeyedSession_def emptyPool_def)

lemma ex_two_range_order: "range_order (sessions ex_two_reporter) [''a.lock'', ''b.lock'']"
  by (auto simp: range_order_def ex_two_reporter_def addKeyedSession_def emptyPool_def)

lemma ex_two_Finish:
  "Finish ex_env [''a.lock'', ''b.lock''] ex_two_reporter ex_world =
     (Returned (Some (Err ''unavailable'')), ex_two_reporter\<lparr>done_closed := True\<rparr>,
      \<lparr>logs = [(Debug, ''Report Sync: Completing tool session: session-a'')],
       rpcs = [CompleteToolSession 7
                 \<lparr>cr_ToolSession = Some \<lparr>ToolSessionId = ''session-a''\<rparr>,
                  cr_Status = STATUS_SUCCESS\<rparr>]\<rparr>)"
proof -
  have st: "wg ex_two_reporter = 0" "\<not> done_closed ex_two_reporter"
    by (simp_all add: ex_two_reporter_def ex_reporter_def)
  have keep: "sessions (ex_two_reporter\<lparr>done_closed := True\<rparr>) = sessions ex_two_reporter"
    by simp
  have reply: "CompleteToolSession_reply ex_env h 7
      \<lparr>cr_ToolSession = Some \<lparr>ToolSessionId = ''session-a''\<rparr>, cr_Status = STATUS_SUCCESS\<rparr> =
      Some (Err ''unavailable'')" for h
    by (simp add: ex_env_def)
  show ?thesis
    by (simp add: Finish_def st keep ex_two_sessions Finish_visitor_def reply Let_def
        issue_def logf_def ex_world_def)
qed

text \<open>
  C1, as the claim states it, fails: with two sessions in the pool and a remote service
  that refuses the first completion call, \<open>Finish\<close> returns that error after one
  completion call; the second session gets no completion call.
\<close>

theorem Finish_short_circuits_counterexample:
  "range_order (sessions ex_two_reporter) [''a.lock'', ''b.lock''] \<and>
   syncSessions (sessions ex_two_reporter) ''b.lock'' =
     Some \<lparr>sessionId = ''session-b'', toolServiceClient = 7\<rparr> \<and>
   Finish ex_env [''a.lock'', ''b.lock''] ex_two_reporter ex_world =
     (Returned (Some (Err ''unavailable'')), ex_two_reporter\<lparr>done_closed := True\<rparr>,
      \<lparr>logs = [(Debug, ''Report Sync: Completing tool session: session-a'')],
       rpcs = [CompleteToolSession 7
                 \<lparr>cr_ToolSession = Some \<lparr>ToolSessionId = ''session-a''\<rparr>,
                  cr_Status = STATUS_SUCCESS\<rparr>]\<rparr>) \<and>
   CompleteToolSession 7
     \<lparr>cr_ToolSession = Some \<lparr>ToolSessionId = ''session-b''\<rparr>, cr_Status = STATUS_SUCCESS\<rparr>
     \<notin> set [CompleteToolSession 7
                 \<lparr>cr_ToolSession = Some \<lparr>ToolSessionId = ''session-a''\<rparr>,
                  cr_Status = STATUS_SUCCESS\<rparr>]"
  using ex_two_range_order ex_two_sessions(2) ex_two_Finish
  by simp

text \<open>
  C1, amended. When \<open>Finish\<close> returns, the counter was zero and the channel
  \<^verbatim>\<open>done\<close> is closed. It issues the completion calls of the sessions in the order the
  range yields their keys. When it returns \<^verbatim>\<open>nil\<close>, it has issued one call per key that
  has a session, every call was answered without an error, and (the keys being those of
  the pool) every registered session has had its completion call. When it returns an
  error, the calls before the last one were answered without an error, the last call it
  issued is the one that was answered with that error, and it has issued no call for the
  keys after that one.
\<close>

theorem Finish_stops_at_first_error:
  assumes "Finish env keys s w = (Returned r, s', w')"
  shows "wg s = 0 \<and> s' = s\<lparr>done_closed := True\<rparr> \<and>
         (r = None \<longrightarrow>
            rpcs w' = rpcs w @ completion_calls (sessions s) keys \<and>
            completions_ok env (sessions s) (rpcs w) keys) \<and>
         (r = None \<longrightarrow> range_order (sessions s) keys \<longrightarrow>
            (\<forall>key session. syncSessions (sessions s) key = Some session \<longrightarrow>
               completion_call session \<in> set (rpcs w'))) \<and>
         (\<forall>err. r = Some err \<longrightarrow>
            (\<exists>pre key session post.
               keys = pre @ key # post \<and> syncSessions (sessions s) key = Some session \<and>
               rpcs w' = rpcs w @ completion_calls (sessions s) pre @ [completion_call session] \<and>
               completions_ok env (sessions s) (rpcs w) pre \<and>
               CompleteToolSession_reply env (rpcs w @ completion_calls (sessions s) pre)
                 (toolServiceClient session)
                 \<lparr>cr_ToolSession = Some \<lparr>ToolSessionId = sessionId session\<rparr>,
                  cr_Status = STATUS_SUCCESS\<rparr> = Some err))"
proof -
  from assms have z: "wg s = 0" and nd: "\<not> done_closed s"
    by (auto simp: Finish_def split: if_splits)
  from assms z nd have s': "s' = s\<lparr>done_closed := True\<rparr>"
    and fe: "forEach (sessions s) keys (Finish_visitor env) w = (r, w')"
    by (auto simp: Finish_def Let_def split: prod.splits)
  have a: "r = None \<longrightarrow>
            rpcs w' = rpcs w @ completion_calls (sessions s) keys \<and>
            completions_ok env (sessions s) (rpcs w) keys"
    using fe forEach_Finish_visitor_None by blast
  have b: "r = None \<longrightarrow> range_order (sessions s) keys \<longrightarrow>
            (\<forall>key session. syncSessions (sessions s) key = Some session \<longrightarrow>
               completion_call session \<in> set (rpcs w'))"
  proof (intro impI allI)
    fix key session
    assume "r = None" and ro: "range_order (sessions s) keys"
      and k: "syncSessions (sessions s) key = Some session"
    from ro k have "key \<in> set keys" by (auto simp: range_order_def)
    from completion_calls_member [OF this k] a \<open>r = None\<close>
    show "completion_call session \<in> set (rpcs w')" by simp
  qed
  have c: "\<forall>err. r = Some err \<longrightarrow>
            (\<exists>pre key session post.
               keys = pre @ key # post \<and> syncSessions (sessions s) key = Some session \<and>
               rpcs w' = rpcs w @ completion_calls (sessions s) pre @ [completion_call session] \<and>
               completions_ok env (sessions s) (rpcs w) pre \<and>
               CompleteToolSession_reply env (rpcs w @ completion_calls (sessions s) pre)
                 (toolServiceClient session)
                 \<lparr>cr_ToolSession = Some \<lparr>ToolSessionId = sessionId session\<rparr>,
                  cr_Status = STATUS_SUCCESS\<rparr> = Some err)"
    using fe forEach_Finish_visitor_Some by blast
  from z s' a b c show ?thesis by blast
qed

theorem Finish_stops_at_first_error_witness:
  "Finish ex_env [''*''] (ex_reporter\<lparr>wg := 0\<rparr>) ex_world =
     (Returned None, ex_reporter\<lparr>wg := 0, done_closed := True\<rparr>,
      \<lparr>logs = [(Debug, ''Report Sync: Completing tool session: session-1'')],
       rpcs = [CompleteToolSession 7
                 \<lparr>cr_ToolSession = Some \<lparr>ToolSessionId = ''session-1''\<rparr>,
                  cr_Status = STATUS_SUCCESS\<rparr>]\<rparr>) \<and>
   completion_calls (sessions ex_reporter) [''*''] =
     [CompleteToolSession 7
        \<lparr>cr_ToolSession = Some \<lparr>ToolSessionId = ''session-1''\<rparr>, cr_Status = STATUS_SUCCESS\<rparr>] \<and>
   (\<exists>pre key session post.
      [''a.lock'', ''b.lock''] = pre @ key # post \<and>
      syncSessions (sessions ex_two_reporter) key = Some session \<and>
      [CompleteToolSession 7
         \<lparr>cr_ToolSession = Some \<lparr>ToolSessionId = ''session-a''\<rparr>, cr_Status = STATUS_SUCCESS\<rparr>] =
        completion_calls (sessions ex_two_reporter) pre @ [completion_call session])"
proof -
  have star: "syncSessions (sessions ex_reporter) ''*'' =
      Some \<lparr>sessionId = ''session-1'', toolServiceClient = 7\<rparr>"
    by (simp add: ex_reporter_def addPrimarySession_def emptyPool_def)
  have st: "wg (ex_reporter\<lparr>wg := 0\<rparr>) = 0" "\<not> done_closed (ex_reporter\<lparr>wg := 0\<rparr>)"
    by (simp_all add: ex_reporter_def)
  have reply: "CompleteToolSession_reply ex_env h 7
      \<lparr>cr_ToolSession = Some \<lparr>ToolSessionId = ''session-1''\<rparr>, cr_Status = STATUS_SUCCESS\<rparr> = None" for h
    by (simp add: ex_env_def)
  have fin: "Finish ex_env [''*''] (ex_reporter\<lparr>wg := 0\<rparr>) ex_world =
     (Returned None, ex_reporter\<lparr>wg := 0, done_closed := True\<rparr>,
      \<lparr>logs = [(Debug, ''Report Sync: Completing tool session: session-1'')],
       rpcs = [CompleteToolSession 7
                 \<lparr>cr_ToolSession = Some \<lparr>ToolSessionId = ''session-1''\<rparr>,
                  cr_Status = STATUS_SUCCESS\<rparr>]\<rparr>)"
    by (simp add: Finish_def st star Finish_visitor_def reply Let_def issue_def logf_def ex_world_def)
  from Finish_stops_at_first_error [OF fin]
  have "rpcs \<lparr>logs = [(Debug, ''Report Sync: Completing tool session: session-1'')],
       rpcs = [CompleteToolSession 7
                 \<lparr>cr_ToolSession = Some \<lparr>ToolSessionId = ''session-1''\<rparr>,
                  cr_Status = STATUS_SUCCESS\<rparr>]\<rparr> =
        rpcs ex_world @ completion_calls (sessions (ex_reporter\<lparr>wg := 0\<rparr>)) [''*'']"
    by blast
  then have calls: "completion_calls (sessions ex_reporter) [''*''] =
     [CompleteToolSession 7
        \<lparr>cr_ToolSession = Some \<lparr>ToolSessionId = ''session-1''\<rparr>, cr_Status = STATUS_SUCCESS\<rparr>]"
    by (simp add: ex_world_def)
  from Finish_stops_at_first_error [OF ex_two_Finish]
  obtain pre key session post where
    "[''a.lock'', ''b.lock''] = pre @ key # post"
    "syncSessions (sessions ex_two_reporter) key = Some session"
    "rpcs \<lparr>logs = [(Debug, ''Report Sync: Completing tool session: session-a'')],
       rpcs = [CompleteToolSession 7
                 \<lparr>cr_ToolSession = Some \<lparr>ToolSessionId = ''session-a''\<rparr>,
                  cr_Status = STATUS_SUCCESS\<rparr>]\<rparr> =
      rpcs ex_world @ completion_calls (sessions ex_two_reporter) pre @ [completion_call session]"
    by blast
  then have "\<exists>pre key session post.
      [''a.lock'', ''b.lock''] = pre @ key # post \<and>
      syncSessions (sessions ex_two_reporter) key = Some session \<and>
      [CompleteToolSession 7
         \<lparr>cr_ToolSession = Some \<lparr>ToolSessionId = ''session-a''\<rparr>, cr_Status = STATUS_SUCCESS\<rparr>] =
        completion_calls (sessions ex_two_reporter) pre @ [completion_call session]"
    by (auto simp: ex_world_def)
  with fin calls show ?thesis by blast
qed

section \<open>Properties of the event methods\<close>

text \<open>
  C10. \<open>AddAnalyzerEvent\<close> and \<open>AddPolicyEvent\<close> return the reporter and the world
  they were given, for every event: the session pool, the work queue, the counter, the
  channel \<^verbatim>\<open>done\<close> and the configuration are unchanged, nothing is logged and no
  remote call is issued.
\<close>

theorem AddAnalyzerEvent_AddPolicyEvent_unchanged:
  "AddAnalyzerEvent event s w = (s, w) \<and> AddPolicyEvent event' s w = (s, w)"
  by (simp add: AddAnalyzerEvent_def AddPolicyEvent_def)

end
